theory Spec2Isabelle
  imports Complex_Main
begin

section \<open>Python values, exceptions and the provider interface\<close>

text \<open>
  The program is \<^verbatim>\<open>src/NVDA/nvda_cekdataapi.py\<close>. Everything it does beyond computing
  values is made explicit here: a raised exception is the left summand of a result, the
  requests sent to the data provider, the console, the log and the files on disk are
  fields of a \<open>world\<close> that every operation takes and returns.

  Python separates the ordinary errors (class \<^verbatim>\<open>Exception\<close> and its subclasses, here
  with the text that \<^verbatim>\<open>str(e)\<close> gives) from \<^verbatim>\<open>KeyboardInterrupt\<close>, which derives from
  \<^verbatim>\<open>BaseException\<close> only. A handler \<^verbatim>\<open>except Exception\<close> catches the former and lets the
  latter through.
\<close>

datatype pyexc = Exception string | KeyboardInterrupt

fun is_Exception :: "pyexc \<Rightarrow> bool" where
  "is_Exception (Exception msg) = True"
| "is_Exception KeyboardInterrupt = False"

text \<open>
  A float, in Python and in a frame of bars, is an IEEE double: a number, an infinity or
  NaN. The numbers are modelled as reals; the program compares and selects them and
  computes nothing with them.
\<close>

datatype float64 = Finite real | PosInf | NegInf | NaN

text \<open>
  The double nearest to an integer, ties going to the even mantissa: \<open>excess_bits\<close> is
  the number of low bits that do not fit in the 53 bits of the mantissa.
\<close>

function excess_bits :: "nat \<Rightarrow> nat" where
  "excess_bits a = (if a < 2 ^ 53 then 0 else Suc (excess_bits (a div 2)))"
  by pat_completeness auto
termination
  by (relation "measure (\<lambda>a. a)") auto

definition nearest_double :: "int \<Rightarrow> int" where
  "nearest_double n =
     (let a = nat \<bar>n\<bar>;
          e = excess_bits a;
          q = a div 2 ^ e;
          r = a mod 2 ^ e;
          q' = (if 2 ^ e < 2 * r \<or> (2 * r = 2 ^ e \<and> odd q) then q + 1 else q)
      in sgn n * int (q' * 2 ^ e))"

definition to_float64 :: "int \<Rightarrow> float64" where
  "to_float64 n =
     (let m = nearest_double n
      in if 2 ^ 1024 \<le> m then PosInf
         else if m \<le> - (2 ^ 1024) then NegInf
         else Finite (of_int m))"

text \<open>
  A value as the program finds it under a key of the quote snapshot, or holds it in a
  local variable: \<^verbatim>\<open>None\<close>, an integer, a float, or an object of any other class (a
  string, a list, ...), which is given by what \<^verbatim>\<open>float(x)\<close> and \<^verbatim>\<open>int(x)\<close> return on
  it, or by the text of the error they raise. The program does nothing else with these
  values.
\<close>

datatype pyobj =
    ObjNone
  | ObjInt int
  | ObjFloat float64
  | ObjOther "string + float64" "string + int"

text \<open>The values found in the dict that \<^verbatim>\<open>get_current_price\<close> returns.\<close>

datatype pyval = PyNone | PyStr string | PyFloat float64 | PyInt int

fun is_numeric :: "pyval \<Rightarrow> bool" where
  "is_numeric (PyFloat r) = True"
| "is_numeric (PyInt i) = True"
| "is_numeric PyNone = False"
| "is_numeric (PyStr s) = False"

text \<open>A dict keeps the order in which its keys were inserted; the CSV header depends on it.\<close>

type_synonym row = "(string \<times> pyval) list"

text \<open>
  The quote snapshot (\<^verbatim>\<open>ticker.info\<close>), restricted to the five keys the program reads.
  Nothing is assumed of the values. A key that is absent and a key bound to \<^verbatim>\<open>None\<close> are
  both \<open>ObjNone\<close>: \<^verbatim>\<open>info.get(key)\<close> does not tell them apart.
\<close>

record snapshot =
  currentPrice :: pyobj
  previousClose :: pyobj
  dayHigh :: pyobj
  dayLow :: pyobj
  volume :: pyobj

text \<open>
  One row of the frame that \<^verbatim>\<open>ticker.history\<close> returns, with the frame's column names.
  The four prices are float columns; the volume column holds 64-bit integers, or floats
  when a value is missing.
\<close>

datatype cell = Int64 int | Float64 float64

record bar =
  Open :: float64
  High :: float64
  Low :: float64
  Close :: float64
  Volume :: cell

text \<open>
  What a ticker handle answers to each request the program can make: the property
  \<^verbatim>\<open>ticker.info\<close> raises or yields a dict (or \<^verbatim>\<open>None\<close>), and
  \<^verbatim>\<open>ticker.history(period, interval)\<close> raises or yields a frame, oldest bar first.
\<close>

record upstream =
  ticker_info :: "pyexc + snapshot option"
  ticker_history :: "string \<Rightarrow> string \<Rightarrow> pyexc + bar list"

text \<open>\<^verbatim>\<open>yf.Ticker(symbol)\<close>: the provider raises, or yields the handle for the symbol.\<close>

type_synonym yfinance = "string \<Rightarrow> pyexc + upstream"

datatype request = Info | History string string

subsection \<open>Console, log and files\<close>

text \<open>
  A printed line is kept as the f-string it came from: its literal text, the value
  inserted and the format specification (none, \<^verbatim>\<open>.2f\<close> or \<^verbatim>\<open>,\<close>).
\<close>

datatype fmt = Plain | Fixed2 | Grouped

datatype line = Rule | Text string pyval fmt

datatype level = DEBUG | INFO | ERROR

fun level_no :: "level \<Rightarrow> nat" where
  "level_no DEBUG = 10"
| "level_no INFO = 20"
| "level_no ERROR = 40"

text \<open>One constructor for each logging call of the program.\<close>

datatype message =
    InfoFailed pyexc
  | HistoryFailed pyexc
  | Appended string
  | JobFailed pyexc
  | Starting int string
  | StoppedByUser

text \<open>A table on disk: its rows in order, each row a list of cells.\<close>

type_synonym table = "pyval list list"

record world =
  files :: "string \<rightharpoonup> table"
  stdout :: "line list"
  logged :: "(level \<times> message) list"
  requests :: "request list"

definition LOG_LEVEL :: level where
  "LOG_LEVEL = INFO"

definition CSV_FILE :: string where
  "CSV_FILE = ''nvda_prices.csv''"

definition DEFAULT_SYMBOL :: string where
  "DEFAULT_SYMBOL = ''NVDA''"

text \<open>\<^verbatim>\<open>logger.debug\<close>, \<^verbatim>\<open>logger.info\<close> and \<^verbatim>\<open>logger.error\<close>: a record below the configured level is dropped.\<close>

definition logger :: "level \<Rightarrow> message \<Rightarrow> world \<Rightarrow> world" where
  "logger lvl m w =
     (if level_no LOG_LEVEL \<le> level_no lvl then w\<lparr>logged := logged w @ [(lvl, m)]\<rparr> else w)"

subsection \<open>Built-ins\<close>

text \<open>
  \<^verbatim>\<open>float(x)\<close>: \<^verbatim>\<open>TypeError\<close> on \<^verbatim>\<open>None\<close>, \<^verbatim>\<open>OverflowError\<close> on an integer too large
  for a double, the nearest double of any other integer.
\<close>

fun py_float :: "pyobj \<Rightarrow> pyexc + float64" where
  "py_float ObjNone = Inl (Exception ''TypeError'')"
| "py_float (ObjFloat x) = Inr x"
| "py_float (ObjInt n) =
     (case to_float64 n of
        Finite r \<Rightarrow> Inr (Finite r)
      | _ \<Rightarrow> Inl (Exception ''OverflowError''))"
| "py_float (ObjOther as_float as_int) =
     (case as_float of Inl msg \<Rightarrow> Inl (Exception msg) | Inr x \<Rightarrow> Inr x)"

text \<open>
  \<^verbatim>\<open>int(x)\<close>: \<^verbatim>\<open>TypeError\<close> on \<^verbatim>\<open>None\<close>, \<^verbatim>\<open>ValueError\<close> on NaN, \<^verbatim>\<open>OverflowError\<close> on
  an infinity; a float is truncated towards zero.
\<close>

fun py_int :: "pyobj \<Rightarrow> pyexc + int" where
  "py_int ObjNone = Inl (Exception ''TypeError'')"
| "py_int (ObjInt n) = Inr n"
| "py_int (ObjFloat (Finite r)) = Inr (if 0 \<le> r then \<lfloor>r\<rfloor> else \<lceil>r\<rceil>)"
| "py_int (ObjFloat NaN) = Inl (Exception ''ValueError'')"
| "py_int (ObjFloat PosInf) = Inl (Exception ''OverflowError'')"
| "py_int (ObjFloat NegInf) = Inl (Exception ''OverflowError'')"
| "py_int (ObjOther as_float as_int) =
     (case as_int of Inl msg \<Rightarrow> Inl (Exception msg) | Inr n \<Rightarrow> Inr n)"

text \<open>\<^verbatim>\<open>.iloc[i]\<close>: a negative index counts from the end, an index out of range raises.\<close>

definition iloc :: "'a list \<Rightarrow> int \<Rightarrow> pyexc + 'a" where
  "iloc xs i =
     (let n = int (length xs);
          j = (if i < 0 then i + n else i)
      in if j < 0 \<or> n \<le> j then Inl (Exception ''IndexError'') else Inr (xs ! nat j))"

text \<open>
  A row taken out of the frame (\<^verbatim>\<open>hist.iloc[-1]\<close>) is a series of floats, since the
  price columns are: \<^verbatim>\<open>last_row["Volume"]\<close> is the double nearest to the volume.
\<close>

fun row_float :: "cell \<Rightarrow> float64" where
  "row_float (Int64 n) = to_float64 n"
| "row_float (Float64 x) = x"

text \<open>
  \<^verbatim>\<open>.max()\<close> and \<^verbatim>\<open>.min()\<close> of a float column: NaN entries are skipped, and a column
  with no other entry gives NaN.
\<close>

fun le64 :: "float64 \<Rightarrow> float64 \<Rightarrow> bool" where
  "le64 (Finite a) (Finite b) = (a \<le> b)"
| "le64 (Finite a) PosInf = True"
| "le64 NegInf (Finite b) = True"
| "le64 NegInf NegInf = True"
| "le64 NegInf PosInf = True"
| "le64 PosInf PosInf = True"
| "le64 x y = False"

definition max64 :: "float64 \<Rightarrow> float64 \<Rightarrow> float64" where
  "max64 x y = (if le64 x y then y else x)"

definition min64 :: "float64 \<Rightarrow> float64 \<Rightarrow> float64" where
  "min64 x y = (if le64 x y then x else y)"

definition series_max :: "float64 list \<Rightarrow> float64" where
  "series_max xs = (case filter (\<lambda>x. x \<noteq> NaN) xs of [] \<Rightarrow> NaN | y # ys \<Rightarrow> fold max64 ys y)"

definition series_min :: "float64 list \<Rightarrow> float64" where
  "series_min xs = (case filter (\<lambda>x. x \<noteq> NaN) xs of [] \<Rightarrow> NaN | y # ys \<Rightarrow> fold min64 ys y)"

definition and_then :: "pyexc + 'a \<Rightarrow> ('a \<Rightarrow> pyexc + 'b) \<Rightarrow> pyexc + 'b" where
  "and_then r f = (case r of Inl e \<Rightarrow> Inl e | Inr x \<Rightarrow> f x)"

section \<open>QuoteFetcher: \<^verbatim>\<open>get_current_price\<close>\<close>

text \<open>The five local variables \<^verbatim>\<open>current, prev_close, day_high, day_low, volume\<close>.\<close>

record locals =
  current :: pyobj
  prev_close :: pyobj
  day_high :: pyobj
  day_low :: pyobj
  volume :: pyobj

definition request_info :: "upstream \<Rightarrow> world \<Rightarrow> (pyexc + snapshot option) \<times> world" where
  "request_info up w = (ticker_info up, w\<lparr>requests := requests w @ [Info]\<rparr>)"

definition request_history ::
  "upstream \<Rightarrow> string \<Rightarrow> string \<Rightarrow> world \<Rightarrow> (pyexc + bar list) \<times> world" where
  "request_history up period interval w =
     (ticker_history up period interval, w\<lparr>requests := requests w @ [History period interval]\<rparr>)"

text \<open>The empty dict \<^verbatim>\<open>{}\<close>.\<close>

definition no_info :: snapshot where
  "no_info = \<lparr>currentPrice = ObjNone, previousClose = ObjNone, dayHigh = ObjNone,
     dayLow = ObjNone, snapshot.volume = ObjNone\<rparr>"

text \<open>
  Lines 29 to 33: \<^verbatim>\<open>info = ticker.info or {}\<close> under \<^verbatim>\<open>except Exception\<close>, which
  replaces a failed request by the empty dict and logs at debug level.
\<close>

definition try_info :: "upstream \<Rightarrow> world \<Rightarrow> (pyexc + snapshot) \<times> world" where
  "try_info up w =
     (case request_info up w of
        (Inr None, w1) \<Rightarrow> (Inr no_info, w1)
      | (Inr (Some d), w1) \<Rightarrow> (Inr d, w1)
      | (Inl e, w1) \<Rightarrow>
          if is_Exception e then (Inr no_info, logger DEBUG (InfoFailed e) w1)
          else (Inl e, w1))"

text \<open>
  Lines 55 to 61, run with \<^verbatim>\<open>prev_close is None\<close>: the daily bars of the last five days.
  The result carries the exception raised, if any, and the locals as they are then.
\<close>

definition prev_close_fallback ::
  "upstream \<Rightarrow> locals \<Rightarrow> world \<Rightarrow> (pyexc option \<times> locals) \<times> world" where
  "prev_close_fallback up l w =
     (case request_history up ''5d'' ''1d'' w of
        (Inl e, w1) \<Rightarrow> ((Some e, l), w1)
      | (Inr day_hist, w1) \<Rightarrow>
          if 2 \<le> length day_hist then
            (case iloc (map Close day_hist) (- 2) of
               Inl e \<Rightarrow> ((Some e, l), w1)
             | Inr c \<Rightarrow> ((None, l\<lparr>prev_close := ObjFloat c\<rparr>), w1))
          else if day_hist \<noteq> [] then
            (case iloc (map Close day_hist) (- 1) of
               Inl e \<Rightarrow> ((Some e, l), w1)
             | Inr c \<Rightarrow> ((None, l\<lparr>prev_close := ObjFloat c\<rparr>), w1))
          else ((None, l\<lparr>prev_close := ObjNone\<rparr>), w1))"

text \<open>Line 53: \<^verbatim>\<open>int(last_row["Volume"])\<close>, the integer of the float that the row holds.\<close>

definition volume_of_row :: "bar \<Rightarrow> pyexc + pyobj" where
  "volume_of_row last_row =
     and_then (py_int (ObjFloat (row_float (Volume last_row)))) (\<lambda>n. Inr (ObjInt n))"

text \<open>
  Lines 46 to 61, the body of the \<^verbatim>\<open>try\<close>: the minute bars of the last two days, and
  from them each variable that is still \<^verbatim>\<open>None\<close>, in the order written. The prices
  read are floats already; \<^verbatim>\<open>int(last_row["Volume"])\<close> can raise, after the three
  assignments before it and before the daily bars are asked for.
\<close>

definition history_fallback ::
  "upstream \<Rightarrow> locals \<Rightarrow> world \<Rightarrow> (pyexc option \<times> locals) \<times> world" where
  "history_fallback up l w =
     (case request_history up ''2d'' ''1m'' w of
        (Inl e, w1) \<Rightarrow> ((Some e, l), w1)
      | (Inr hist, w1) \<Rightarrow>
          if hist = [] then ((None, l), w1)
          else
            (case iloc hist (- 1) of
               Inl e \<Rightarrow> ((Some e, l), w1)
             | Inr last_row \<Rightarrow>
                 let l = l\<lparr>current :=
                            (if current l = ObjNone then ObjFloat (Close last_row) else current l)\<rparr>;
                     l = l\<lparr>day_high :=
                            (if day_high l = ObjNone then ObjFloat (series_max (map High hist))
                             else day_high l)\<rparr>;
                     l = l\<lparr>day_low :=
                            (if day_low l = ObjNone then ObjFloat (series_min (map Low hist))
                             else day_low l)\<rparr>
                 in (case (if volume l = ObjNone then volume_of_row last_row
                           else Inr (volume l)) of
                       Inl e \<Rightarrow> ((Some e, l), w1)
                     | Inr v \<Rightarrow>
                         (let l = l\<lparr>volume := v\<rparr>
                          in if prev_close l = ObjNone then prev_close_fallback up l w1
                             else ((None, l), w1)))))"

text \<open>Lines 65 to 75: the final fallbacks.\<close>

definition final_fallbacks :: "locals \<Rightarrow> locals" where
  "final_fallbacks l =
     (let l = (if current l = ObjNone then l\<lparr>current := ObjFloat (Finite 0)\<rparr> else l);
          l = (if prev_close l = ObjNone then l\<lparr>prev_close := ObjFloat (Finite 0)\<rparr> else l);
          l = (if day_high l = ObjNone then l\<lparr>day_high := ObjFloat (Finite 0)\<rparr> else l);
          l = (if day_low l = ObjNone then l\<lparr>day_low := ObjFloat (Finite 0)\<rparr> else l);
          l = (if volume l = ObjNone then l\<lparr>volume := ObjInt 0\<rparr> else l)
      in l)"

text \<open>
  Lines 77 to 85: the dict returned, its values converted in the order written. These
  conversions are under no handler: what they raise leaves the function.
\<close>

definition make_row :: "string \<Rightarrow> string \<Rightarrow> locals \<Rightarrow> pyexc + row" where
  "make_row now_ts symbol l =
     and_then (py_float (current l)) (\<lambda>c.
     and_then (py_float (prev_close l)) (\<lambda>p.
     and_then (py_float (day_high l)) (\<lambda>h.
     and_then (py_float (day_low l)) (\<lambda>lo.
     and_then (py_int (volume l)) (\<lambda>v.
       Inr [(''timestamp'', PyStr now_ts),
            (''symbol'', PyStr symbol),
            (''current_price'', PyFloat c),
            (''previous_close'', PyFloat p),
            (''day_high'', PyFloat h),
            (''day_low'', PyFloat lo),
            (''volume'', PyInt v)])))))"

text \<open>Lines 36 to 40: \<^verbatim>\<open>info.get\<close> of the five keys.\<close>

definition best_effort_fields :: "snapshot \<Rightarrow> locals" where
  "best_effort_fields info =
     \<lparr>current = currentPrice info, prev_close = previousClose info,
      day_high = dayHigh info, day_low = dayLow info,
      volume = snapshot.volume info\<rparr>"

text \<open>Line 43: the condition under which the bars are consulted.\<close>

definition any_missing :: "locals \<Rightarrow> bool" where
  "any_missing l \<longleftrightarrow>
     current l = ObjNone \<or> prev_close l = ObjNone \<or> day_high l = ObjNone
     \<or> day_low l = ObjNone \<or> volume l = ObjNone"

text \<open>
  Lines 28 to 63, the two tiers: the snapshot, then the bars when a variable is still
  \<^verbatim>\<open>None\<close>. The handler of line 62 catches an \<^verbatim>\<open>Exception\<close> raised anywhere in the
  fallback and keeps what the variables held when it was raised.
\<close>

definition resolve_tiers :: "upstream \<Rightarrow> world \<Rightarrow> (pyexc + locals) \<times> world" where
  "resolve_tiers up w =
     (case try_info up w of
        (Inl e, w1) \<Rightarrow> (Inl e, w1)
      | (Inr info, w1) \<Rightarrow>
          let l = best_effort_fields info
          in if any_missing l then
               (case history_fallback up l w1 of
                  ((None, l2), w2) \<Rightarrow> (Inr l2, w2)
                | ((Some e, l2), w2) \<Rightarrow>
                    if is_Exception e then (Inr l2, logger DEBUG (HistoryFailed e) w2)
                    else (Inl e, w2))
             else (Inr l, w1))"

text \<open>
  \<^verbatim>\<open>get_current_price(symbol)\<close>. Line 25 creates the handle under no handler, so what
  \<^verbatim>\<open>yf.Ticker(symbol)\<close> raises leaves the function. The clock reading
  \<^verbatim>\<open>datetime.now().strftime(...)\<close> is the argument \<open>now_ts\<close>.
\<close>

definition get_current_price ::
  "yfinance \<Rightarrow> string \<Rightarrow> string \<Rightarrow> world \<Rightarrow> (pyexc + row) \<times> world" where
  "get_current_price yf now_ts symbol w =
     (case yf symbol of
        Inl e \<Rightarrow> (Inl e, w)
      | Inr ticker \<Rightarrow>
          (case resolve_tiers ticker w of
             (Inl e, w1) \<Rightarrow> (Inl e, w1)
           | (Inr l, w1) \<Rightarrow> (make_row now_ts symbol (final_fallbacks l), w1)))"

text \<open>The value stored under a key of a dict returned, \<open>None\<close> when the key is absent.\<close>

definition field :: "row \<Rightarrow> string \<Rightarrow> pyval option" where
  "field r k = map_of r k"

definition field_names :: "string list" where
  "field_names = [''timestamp'', ''symbol'', ''current_price'', ''previous_close'',
     ''day_high'', ''day_low'', ''volume'']"

text \<open>
  No request of the two tiers is cut short by the user's interrupt: every answer of the
  handle is a value or an ordinary error.
\<close>

definition no_interrupt :: "upstream \<Rightarrow> bool" where
  "no_interrupt up \<longleftrightarrow>
     ticker_info up \<noteq> Inl KeyboardInterrupt
     \<and> ticker_history up ''2d'' ''1m'' \<noteq> Inl KeyboardInterrupt
     \<and> ticker_history up ''5d'' ''1d'' \<noteq> Inl KeyboardInterrupt"

section \<open>Recorder: \<^verbatim>\<open>print_summary\<close> and \<^verbatim>\<open>append_to_csv\<close>\<close>

text \<open>
  What the surroundings do during one cycle: the provider's answers, the clock reading,
  and what writing to the console and writing the table raise, if anything (a closed
  stream, a full disk, a path that cannot be opened, the user's interrupt).
\<close>

record env =
  provider :: yfinance
  clock_text :: string
  print_raises :: "pyexc option"
  to_csv_raises :: "pyexc option"

definition py_print :: "env \<Rightarrow> line \<Rightarrow> world \<Rightarrow> (pyexc + unit) \<times> world" where
  "py_print ev out w =
     (case print_raises ev of
        Some e \<Rightarrow> (Inl e, w)
      | None \<Rightarrow> (Inr (), w\<lparr>stdout := stdout w @ [out]\<rparr>))"

text \<open>\<^verbatim>\<open>row[key]\<close> raises \<^verbatim>\<open>KeyError\<close> on a missing key.\<close>

definition getitem :: "row \<Rightarrow> string \<Rightarrow> pyexc + pyval" where
  "getitem r k = (case map_of r k of None \<Rightarrow> Inl (Exception ''KeyError'') | Some v \<Rightarrow> Inr v)"

text \<open>
  A format specification applied to a value: \<^verbatim>\<open>.2f\<close> and \<^verbatim>\<open>,\<close> accept numbers, raise
  \<^verbatim>\<open>ValueError\<close> on a string and \<^verbatim>\<open>TypeError\<close> on \<^verbatim>\<open>None\<close>.
\<close>

fun py_format :: "pyval \<Rightarrow> fmt \<Rightarrow> pyexc + pyval" where
  "py_format v Plain = Inr v"
| "py_format (PyFloat r) spec = Inr (PyFloat r)"
| "py_format (PyInt i) spec = Inr (PyInt i)"
| "py_format (PyStr s) spec = Inl (Exception ''ValueError'')"
| "py_format PyNone spec = Inl (Exception ''TypeError'')"

definition fstring :: "string \<Rightarrow> row \<Rightarrow> string \<Rightarrow> fmt \<Rightarrow> pyexc + line" where
  "fstring txt r k spec =
     and_then (getitem r k) (\<lambda>v. and_then (py_format v spec) (\<lambda>u. Inr (Text txt u spec)))"

text \<open>A sequence of \<^verbatim>\<open>print\<close> statements: each argument is evaluated, then printed.\<close>

fun print_lines :: "env \<Rightarrow> (pyexc + line) list \<Rightarrow> world \<Rightarrow> (pyexc + unit) \<times> world" where
  "print_lines ev [] w = (Inr (), w)"
| "print_lines ev (a # rest) w =
     (case a of
        Inl e \<Rightarrow> (Inl e, w)
      | Inr out \<Rightarrow>
          (case py_print ev out w of
             (Inl e, w1) \<Rightarrow> (Inl e, w1)
           | (Inr u, w1) \<Rightarrow> print_lines ev rest w1))"

definition print_summary :: "env \<Rightarrow> row \<Rightarrow> world \<Rightarrow> (pyexc + unit) \<times> world" where
  "print_summary ev r w =
     print_lines ev
       [Inr Rule,
        fstring ''NVDA Quick Check - '' r ''timestamp'' Plain,
        Inr Rule,
        fstring ''Symbol         : '' r ''symbol'' Plain,
        fstring ''Current Price  : $'' r ''current_price'' Fixed2,
        fstring ''Previous Close : $'' r ''previous_close'' Fixed2,
        fstring ''Day High       : $'' r ''day_high'' Fixed2,
        fstring ''Day Low        : $'' r ''day_low'' Fixed2,
        fstring ''Volume         : '' r ''volume'' Grouped,
        Inr Rule] w"

text \<open>The two kinds of row of a table: the column names of a record, and its values.\<close>

definition header_row :: "row \<Rightarrow> pyval list" where
  "header_row r = map (\<lambda>kv. PyStr (fst kv)) r"

definition data_row :: "row \<Rightarrow> pyval list" where
  "data_row r = map snd r"

definition path_exists :: "string \<Rightarrow> world \<Rightarrow> bool" where
  "path_exists path w \<longleftrightarrow> files w path \<noteq> None"

text \<open>
  \<^verbatim>\<open>df.to_csv(csv_path, mode="a", header=header, index=False)\<close> for the one-row frame
  of \<open>r\<close>: opens the file for appending, creating it when missing, and writes the column
  names first when \<open>header\<close> is set.
\<close>

definition to_csv :: "env \<Rightarrow> row \<Rightarrow> string \<Rightarrow> bool \<Rightarrow> world \<Rightarrow> (pyexc + unit) \<times> world" where
  "to_csv ev r path header w =
     (case to_csv_raises ev of
        Some e \<Rightarrow> (Inl e, w)
      | None \<Rightarrow>
          let old = (case files w path of None \<Rightarrow> [] | Some t \<Rightarrow> t);
              new = (if header then [header_row r] else []) @ [data_row r]
          in (Inr (), w\<lparr>files := (files w)(path \<mapsto> old @ new)\<rparr>))"

definition append_to_csv :: "env \<Rightarrow> row \<Rightarrow> string \<Rightarrow> world \<Rightarrow> (pyexc + unit) \<times> world" where
  "append_to_csv ev r csv_path w =
     (let header = \<not> path_exists csv_path w
      in case to_csv ev r csv_path header w of
           (Inl e, w1) \<Rightarrow> (Inl e, w1)
         | (Inr u, w1) \<Rightarrow> (Inr (), logger INFO (Appended csv_path) w1))"

text \<open>Persisting several records one after the other to the same destination.\<close>

fun append_all :: "env \<Rightarrow> row list \<Rightarrow> string \<Rightarrow> world \<Rightarrow> (pyexc + unit) \<times> world" where
  "append_all ev [] csv_path w = (Inr (), w)"
| "append_all ev (r # rs) csv_path w =
     (case append_to_csv ev r csv_path w of
        (Inl e, w1) \<Rightarrow> (Inl e, w1)
      | (Inr u, w1) \<Rightarrow> append_all ev rs csv_path w1)"

section \<open>Scheduler: \<^verbatim>\<open>job\<close> and \<^verbatim>\<open>run_scheduler\<close>\<close>

text \<open>Lines 113 to 115, the body of the \<^verbatim>\<open>try\<close> of \<^verbatim>\<open>job\<close>: fetch, print, append.\<close>

definition cycle :: "env \<Rightarrow> string \<Rightarrow> string \<Rightarrow> world \<Rightarrow> (pyexc + unit) \<times> world" where
  "cycle ev symbol csv_path w =
     (case get_current_price (provider ev) (clock_text ev) symbol w of
        (Inl e, w1) \<Rightarrow> (Inl e, w1)
      | (Inr r, w1) \<Rightarrow>
          (case print_summary ev r w1 of
             (Inl e, w2) \<Rightarrow> (Inl e, w2)
           | (Inr u, w2) \<Rightarrow> append_to_csv ev r csv_path w2))"

text \<open>\<^verbatim>\<open>job\<close>: the cycle under \<^verbatim>\<open>except Exception as e: logger.error(...)\<close>.\<close>

definition job :: "env \<Rightarrow> string \<Rightarrow> string \<Rightarrow> world \<Rightarrow> (pyexc + unit) \<times> world" where
  "job ev symbol csv_path w =
     (case cycle ev symbol csv_path w of
        (Inr u, w1) \<Rightarrow> (Inr (), w1)
      | (Inl e, w1) \<Rightarrow>
          if is_Exception e then (Inr (), logger ERROR (JobFailed e) w1)
          else (Inl e, w1))"

text \<open>
  Modelled from the spec: the registry of periodic tasks of the third-party
  \<^verbatim>\<open>schedule\<close> module (\<^verbatim>\<open>schedule.clear\<close>, \<^verbatim>\<open>schedule.every(n).minutes.do\<close>,
  \<^verbatim>\<open>schedule.run_pending\<close>), which is not part of the repository. Following section 4.3
  of the specification, a task is bound to a fixed interval in whole minutes, a poll
  executes the task when it is due and the task then waits for its next occurrence, and
  an execution that returns leaves the task registered. An exception raised by the task
  passes through the poll to the caller.
\<close>

record task =
  task_symbol :: string
  task_csv_path :: string
  every_seconds :: int
  next_run :: int

text \<open>
  One iteration of \<^verbatim>\<open>while True\<close>: the clock reading of the poll in seconds, what the
  surroundings do during it, and whether the user's interrupt arrives in \<^verbatim>\<open>time.sleep(1)\<close>.
\<close>

record tick =
  clock :: int
  during :: env
  sleep_interrupted :: bool

fun run_pending :: "tick \<Rightarrow> task list \<Rightarrow> world \<Rightarrow> (pyexc + task list) \<times> world" where
  "run_pending t [] w = (Inr [], w)"
| "run_pending t (j # js) w =
     (if next_run j \<le> clock t then
        (case job (during t) (task_symbol j) (task_csv_path j) w of
           (Inl e, w1) \<Rightarrow> (Inl e, w1)
         | (Inr u, w1) \<Rightarrow>
             (case run_pending t js w1 of
                (Inl e, w2) \<Rightarrow> (Inl e, w2)
              | (Inr js', w2) \<Rightarrow> (Inr (j\<lparr>next_run := clock t + every_seconds j\<rparr> # js'), w2)))
      else
        (case run_pending t js w of
           (Inl e, w2) \<Rightarrow> (Inl e, w2)
         | (Inr js', w2) \<Rightarrow> (Inr (j # js'), w2)))"

text \<open>
  The loop of lines 126 to 128 never ends by itself. It is run here on the ticks handed
  to it: \<open>Polling\<close> says that they are used up with the loop still going, and holds the
  registry as it is then; \<open>Raised\<close> says that an exception left the loop.
\<close>

datatype status = Polling "task list" | Returned | Raised pyexc

fun poll_loop :: "tick list \<Rightarrow> task list \<Rightarrow> world \<Rightarrow> status \<times> world" where
  "poll_loop [] reg w = (Polling reg, w)"
| "poll_loop (t # ts) reg w =
     (case run_pending t reg w of
        (Inl e, w1) \<Rightarrow> (Raised e, w1)
      | (Inr reg1, w1) \<Rightarrow>
          if sleep_interrupted t then (Raised KeyboardInterrupt, w1)
          else poll_loop ts reg1 w1)"

text \<open>
  \<^verbatim>\<open>schedule.clear()\<close> followed by \<^verbatim>\<open>schedule.every(n).minutes.do(job, ...)\<close> at
  clock reading \<open>started\<close>: the registry holds the one task, first due after one interval.
\<close>

definition every_minutes_do :: "int \<Rightarrow> int \<Rightarrow> string \<Rightarrow> string \<Rightarrow> task list" where
  "every_minutes_do started interval_minutes symbol csv_path =
     [\<lparr>task_symbol = symbol, task_csv_path = csv_path,
       every_seconds = 60 * interval_minutes,
       next_run = started + 60 * interval_minutes\<rparr>]"

text \<open>\<^verbatim>\<open>run_scheduler\<close>: the task registered and the loop run under \<^verbatim>\<open>except KeyboardInterrupt\<close>.\<close>

definition run_scheduler ::
  "int \<Rightarrow> tick list \<Rightarrow> int \<Rightarrow> string \<Rightarrow> string \<Rightarrow> world \<Rightarrow> status \<times> world" where
  "run_scheduler started ticks interval_minutes symbol csv_path w =
     (let w0 = logger INFO (Starting interval_minutes symbol) w;
          reg = every_minutes_do started interval_minutes symbol csv_path
      in case poll_loop ticks reg w0 of
           (Raised e, w1) \<Rightarrow>
             if e = KeyboardInterrupt then (Returned, logger INFO StoppedByUser w1)
             else (Raised e, w1)
         | (st, w1) \<Rightarrow> (st, w1))"

section \<open>Vocabulary of the statements\<close>

text \<open>The shape of a well-formed record: seven keys in order, two strings, four floats, one integer.\<close>

definition quote_row ::
  "string \<Rightarrow> string \<Rightarrow> float64 \<Rightarrow> float64 \<Rightarrow> float64 \<Rightarrow> float64 \<Rightarrow> int \<Rightarrow> row" where
  "quote_row now_ts symbol c p h lo v =
     [(''timestamp'', PyStr now_ts),
      (''symbol'', PyStr symbol),
      (''current_price'', PyFloat c),
      (''previous_close'', PyFloat p),
      (''day_high'', PyFloat h),
      (''day_low'', PyFloat lo),
      (''volume'', PyInt v)]"

text \<open>
  What lines 65 to 85 make of a variable: \<^verbatim>\<open>float\<close> or \<^verbatim>\<open>int\<close> of its value, or of zero
  when it is \<^verbatim>\<open>None\<close>.
\<close>

definition float_or_zero :: "pyobj \<Rightarrow> pyexc + float64" where
  "float_or_zero x = py_float (if x = ObjNone then ObjFloat (Finite 0) else x)"

definition int_or_zero :: "pyobj \<Rightarrow> pyexc + int" where
  "int_or_zero x = py_int (if x = ObjNone then ObjInt 0 else x)"

text \<open>A result that is a value, not an exception raised.\<close>

definition returns :: "pyexc + 'a \<Rightarrow> bool" where
  "returns r = (case r of Inl e \<Rightarrow> False | Inr x \<Rightarrow> True)"

text \<open>The five variables hold values that these conversions accept.\<close>

definition convertible :: "locals \<Rightarrow> bool" where
  "convertible l \<longleftrightarrow>
     returns (float_or_zero (current l)) \<and> returns (float_or_zero (prev_close l))
     \<and> returns (float_or_zero (day_high l)) \<and> returns (float_or_zero (day_low l))
     \<and> returns (int_or_zero (volume l))"

text \<open>The snapshot as the program sees it: the empty dict when the request fails or yields nothing.\<close>

definition seen_info :: "upstream \<Rightarrow> snapshot" where
  "seen_info up = (case ticker_info up of Inr (Some d) \<Rightarrow> d | _ \<Rightarrow> no_info)"

text \<open>
  Each value of the snapshot is \<^verbatim>\<open>None\<close> or accepted by the conversion of its field:
  a price by \<^verbatim>\<open>float\<close>, the volume by \<^verbatim>\<open>int\<close>.
\<close>

definition well_typed :: "upstream \<Rightarrow> bool" where
  "well_typed up \<longleftrightarrow> convertible (best_effort_fields (seen_info up))"

text \<open>The requests sent between two states of the world.\<close>

definition new_requests :: "world \<Rightarrow> world \<Rightarrow> request list" where
  "new_requests w w' = drop (length (requests w)) (requests w')"

text \<open>Every field of a record holds a number.\<close>

definition all_numeric :: "row \<Rightarrow> bool" where
  "all_numeric r = list_all (\<lambda>k. case field r k of None \<Rightarrow> False | Some v \<Rightarrow> is_numeric v) field_names"

text \<open>The variables after lines 50 to 52 have filled the prices that were \<^verbatim>\<open>None\<close> from the minute bars \<open>hist\<close>.\<close>

definition filled_prices :: "bar list \<Rightarrow> locals \<Rightarrow> locals" where
  "filled_prices hist l =
     l\<lparr>current := (if current l = ObjNone then ObjFloat (Close (last hist)) else current l),
       day_high := (if day_high l = ObjNone then ObjFloat (series_max (map High hist)) else day_high l),
       day_low := (if day_low l = ObjNone then ObjFloat (series_min (map Low hist)) else day_low l)\<rparr>"

text \<open>What line 53 assigns to the volume, or raises.\<close>

definition minute_volume :: "bar list \<Rightarrow> locals \<Rightarrow> pyexc + pyobj" where
  "minute_volume hist l = (if volume l = ObjNone then volume_of_row (last hist) else Inr (volume l))"

text \<open>The value that the daily bars \<open>ds\<close> give to \<^verbatim>\<open>prev_close\<close>.\<close>

definition daily_close :: "bar list \<Rightarrow> pyobj" where
  "daily_close ds =
     (if 2 \<le> length ds then ObjFloat (Close (ds ! (length ds - 2)))
      else if ds \<noteq> [] then ObjFloat (Close (last ds)) else ObjNone)"


text \<open>A world with nothing on disk, nothing printed, nothing logged and no request sent.\<close>

definition empty_world :: world where
  "empty_world = \<lparr>files = Map.empty, stdout = [], logged = [], requests = []\<rparr>"

text \<open>A bar whose four prices are all \<open>c\<close>.\<close>

definition flat_bar :: "real \<Rightarrow> bar" where
  "flat_bar c = \<lparr>Open = Finite c, High = Finite c, Low = Finite c, Close = Finite c,
     Volume = Int64 1000\<rparr>"

text \<open>A handle with the given snapshot answer, minute bars and daily bars.\<close>

definition provider_with ::
  "pyexc + snapshot option \<Rightarrow> pyexc + bar list \<Rightarrow> pyexc + bar list \<Rightarrow> upstream" where
  "provider_with snap minute daily =
     \<lparr>ticker_info = snap,
      ticker_history = (\<lambda>period interval.
        if period = ''2d'' \<and> interval = ''1m'' then minute
        else if period = ''5d'' \<and> interval = ''1d'' then daily
        else Inl (Exception ''unsupported''))\<rparr>"

text \<open>A provider that yields the given handle for every symbol.\<close>

definition serving :: "upstream \<Rightarrow> yfinance" where
  "serving up = (\<lambda>symbol. Inr up)"

text \<open>A provider that rejects the empty symbol and yields the given handle for any other.\<close>

definition rejecting_empty :: "upstream \<Rightarrow> yfinance" where
  "rejecting_empty up = (\<lambda>symbol. if symbol = [] then Inl (Exception ''ValueError'') else Inr up)"

text \<open>A handle with no snapshot, one minute bar and daily bars with the given closes.\<close>

definition daily_provider :: "real list \<Rightarrow> upstream" where
  "daily_provider closes = provider_with (Inr None) (Inr [flat_bar 20]) (Inr (map flat_bar closes))"

text \<open>A snapshot with all five fields, one whose volume is NaN, and two minute bars.\<close>

definition full_info :: snapshot where
  "full_info = \<lparr>currentPrice = ObjFloat (Finite 181.5), previousClose = ObjFloat (Finite 180),
     dayHigh = ObjFloat (Finite 183), dayLow = ObjFloat (Finite 179.25),
     snapshot.volume = ObjInt 1500000\<rparr>"

definition nan_volume_info :: snapshot where
  "nan_volume_info = full_info\<lparr>snapshot.volume := ObjFloat NaN\<rparr>"

definition two_bars :: "bar list" where
  "two_bars = [\<lparr>Open = Finite 100, High = Finite 105, Low = Finite 99, Close = Finite 104,
                 Volume = Int64 700\<rparr>,
               \<lparr>Open = Finite 104, High = Finite 107, Low = Finite 101, Close = Finite 102,
                 Volume = Int64 900\<rparr>]"

text \<open>One minute bar whose volume, \<open>2^53 + 1\<close>, is no double.\<close>

definition huge_volume_bars :: "bar list" where
  "huge_volume_bars = [\<lparr>Open = Finite 100, High = Finite 105, Low = Finite 99, Close = Finite 104,
                         Volume = Int64 9007199254740993\<rparr>]"

text \<open>Surroundings in which every stage of a cycle succeeds.\<close>

definition fair_weather :: env where
  "fair_weather =
     \<lparr>provider = serving (provider_with (Inr (Some full_info)) (Inr two_bars) (Inr two_bars)),
      clock_text = ''2026-11-04 09:30:00'', print_raises = None, to_csv_raises = None\<rparr>"


text \<open>Surroundings in which the user's interrupt arrives during the snapshot request.\<close>

definition ctrl_c :: env where
  "ctrl_c = fair_weather\<lparr>provider :=
     serving (provider_with (Inl KeyboardInterrupt) (Inr two_bars) (Inr two_bars))\<rparr>"

text \<open>A tick at clock reading \<open>c\<close> in the given surroundings, with an undisturbed sleep.\<close>

definition tick_at :: "int \<Rightarrow> env \<Rightarrow> tick" where
  "tick_at c ev = \<lparr>clock = c, during = ev, sleep_interrupted = False\<rparr>"

text \<open>A handle that fails every request with an ordinary error.\<close>

definition provider_down :: upstream where
  "provider_down = \<lparr>ticker_info = Inl (Exception ''network''),
     ticker_history = (\<lambda>period interval. Inl (Exception ''network''))\<rparr>"

section \<open>Doubles and conversions\<close>

lemma excess_bits_small: "a < 2 ^ 53 \<Longrightarrow> excess_bits a = 0"
  by simp

declare excess_bits.simps [simp del]

lemma nearest_double_exact: "\<bar>n\<bar> \<le> 2 ^ 53 \<Longrightarrow> nearest_double n = n"
proof (cases "\<bar>n\<bar> < 2 ^ 53")
  case True
  then have "nat \<bar>n\<bar> < 2 ^ 53" by (simp add: nat_less_iff)
  then have "excess_bits (nat \<bar>n\<bar>) = 0" by (rule excess_bits_small)
  then show ?thesis by (simp add: nearest_double_def Let_def mult_sgn_abs)
next
  case False
  assume "\<bar>n\<bar> \<le> 2 ^ 53"
  with False have a: "\<bar>n\<bar> = 2 ^ 53" by linarith
  then have n: "nat \<bar>n\<bar> = 2 ^ 53" by (simp add: nat_eq_iff)
  have e: "excess_bits 9007199254740992 = Suc 0" by (simp add: excess_bits.simps)
  from a have "sgn n * 2 ^ 53 = n" by (metis mult_sgn_abs)
  then show ?thesis by (simp add: nearest_double_def Let_def n e)
qed

lemma nearest_double_huge: "nearest_double 9007199254740993 = 9007199254740992"
proof -
  have e: "excess_bits 9007199254740993 = Suc 0" by (simp add: excess_bits.simps)
  show ?thesis by (simp add: nearest_double_def Let_def e)
qed

lemma to_float64_exact:
  assumes "\<bar>n\<bar> \<le> 2 ^ 53"
  shows "to_float64 n = Finite (of_int n)"
proof -
  have "(2::int) ^ 53 < 2 ^ 1024" by simp
  with assms have "\<not> 2 ^ 1024 \<le> n" "\<not> n \<le> - (2 ^ 1024)" by linarith+
  then show ?thesis
    unfolding to_float64_def nearest_double_exact[OF assms] Let_def by (simp only: if_False)
qed

lemma to_float64_huge: "to_float64 9007199254740993 = Finite 9007199254740992"
  by (simp add: to_float64_def nearest_double_huge)


lemma py_int_raised: "py_int x = Inl e \<Longrightarrow> is_Exception e"
  by (cases x rule: py_int.cases) (auto split: sum.splits)

lemma volume_of_row_raised: "volume_of_row b = Inl e \<Longrightarrow> is_Exception e"
  by (auto simp: volume_of_row_def and_then_def dest: py_int_raised split: sum.splits)

lemma volume_of_row_exact:
  "Volume b = Int64 n \<Longrightarrow> \<bar>n\<bar> \<le> 2 ^ 53 \<Longrightarrow> volume_of_row b = Inr (ObjInt n)"
  by (simp add: volume_of_row_def and_then_def to_float64_exact)

lemma fold_max64_finite: "fold max64 (map Finite ys) (Finite y) = Finite (fold max ys y)"
  by (induction ys arbitrary: y) (simp_all add: max64_def max_def)

lemma fold_min64_finite: "fold min64 (map Finite ys) (Finite y) = Finite (fold min ys y)"
  by (induction ys arbitrary: y) (simp_all add: min64_def min_def)

lemma filter_no_nan: "filter (\<lambda>x. x \<noteq> NaN) (map Finite hs) = map Finite hs"
  by (induction hs) simp_all

lemma series_max_finite:
  assumes "hs \<noteq> []"
  shows "series_max (map Finite hs) = Finite (Max (set hs))"
proof -
  from assms obtain a rest where hs: "hs = a # rest" by (cases hs) auto
  have "series_max (map Finite hs) = Finite (fold max rest a)"
    unfolding series_max_def filter_no_nan by (simp add: hs fold_max64_finite)
  also have "fold max rest a = Max (set hs)"
    unfolding hs by (rule Max.set_eq_fold[symmetric])
  finally show ?thesis .
qed

lemma series_min_finite:
  assumes "hs \<noteq> []"
  shows "series_min (map Finite hs) = Finite (Min (set hs))"
proof -
  from assms obtain a rest where hs: "hs = a # rest" by (cases hs) auto
  have "series_min (map Finite hs) = Finite (fold min rest a)"
    unfolding series_min_def filter_no_nan by (simp add: hs fold_min64_finite)
  also have "fold min rest a = Min (set hs)"
    unfolding hs by (rule Min.set_eq_fold[symmetric])
  finally show ?thesis .
qed

lemma float_or_zero_simps:
  "float_or_zero ObjNone = Inr (Finite 0)" "float_or_zero (ObjFloat x) = Inr x"
  by (simp_all add: float_or_zero_def)

lemma int_or_zero_simps:
  "int_or_zero ObjNone = Inr 0" "int_or_zero (ObjInt n) = Inr n"
  by (simp_all add: int_or_zero_def)



lemma returns_iff: "returns r \<longleftrightarrow> (\<exists>x. r = Inr x)"
  by (cases r) (simp_all add: returns_def)

section \<open>The fetch, case by case\<close>

lemma final_fallbacks_fields:
  "current (final_fallbacks l) = (if current l = ObjNone then ObjFloat (Finite 0) else current l)"
  "prev_close (final_fallbacks l) = (if prev_close l = ObjNone then ObjFloat (Finite 0) else prev_close l)"
  "day_high (final_fallbacks l) = (if day_high l = ObjNone then ObjFloat (Finite 0) else day_high l)"
  "day_low (final_fallbacks l) = (if day_low l = ObjNone then ObjFloat (Finite 0) else day_low l)"
  "volume (final_fallbacks l) = (if volume l = ObjNone then ObjInt 0 else volume l)"
  by (simp_all add: final_fallbacks_def Let_def)

lemma make_row_final:
  "make_row n s (final_fallbacks l) =
     and_then (float_or_zero (current l)) (\<lambda>c.
     and_then (float_or_zero (prev_close l)) (\<lambda>p.
     and_then (float_or_zero (day_high l)) (\<lambda>h.
     and_then (float_or_zero (day_low l)) (\<lambda>lo.
     and_then (int_or_zero (volume l)) (\<lambda>v.
       Inr (quote_row n s c p h lo v))))))"
  unfolding make_row_def final_fallbacks_fields float_or_zero_def int_or_zero_def quote_row_def
  by (rule refl)

lemma make_row_returns:
  "float_or_zero (current l) = Inr c \<Longrightarrow> float_or_zero (prev_close l) = Inr p \<Longrightarrow>
   float_or_zero (day_high l) = Inr h \<Longrightarrow> float_or_zero (day_low l) = Inr lo \<Longrightarrow>
   int_or_zero (volume l) = Inr v \<Longrightarrow>
   make_row n s (final_fallbacks l) = Inr (quote_row n s c p h lo v)"
  by (simp add: make_row_final and_then_def)

lemma make_row_returned:
  "make_row n s (final_fallbacks l) = Inr r \<Longrightarrow>
   \<exists>c p h lo v. float_or_zero (current l) = Inr c \<and> float_or_zero (prev_close l) = Inr p
     \<and> float_or_zero (day_high l) = Inr h \<and> float_or_zero (day_low l) = Inr lo
     \<and> int_or_zero (volume l) = Inr v \<and> r = quote_row n s c p h lo v"
  by (auto simp: make_row_final and_then_def split: sum.splits)


lemma convertible_returns:
  "convertible l \<Longrightarrow>
   \<exists>c p h lo v. float_or_zero (current l) = Inr c \<and> float_or_zero (prev_close l) = Inr p
     \<and> float_or_zero (day_high l) = Inr h \<and> float_or_zero (day_low l) = Inr lo
     \<and> int_or_zero (volume l) = Inr v"
  by (simp add: convertible_def returns_iff)

lemma logger_debug: "logger DEBUG m w = w"
  by (simp add: logger_def LOG_LEVEL_def)

lemma not_interrupt_iff: "e \<noteq> KeyboardInterrupt \<longleftrightarrow> is_Exception e"
  by (cases e) simp_all

lemma try_info_ok:
  "ticker_info up \<noteq> Inl KeyboardInterrupt \<Longrightarrow>
     try_info up w = (Inr (seen_info up), w\<lparr>requests := requests w @ [Info]\<rparr>)"
  apply (cases "ticker_info up")
  subgoal for e by (cases e) (auto simp: try_info_def request_info_def seen_info_def logger_debug)
  subgoal for d by (cases d) (auto simp: try_info_def request_info_def seen_info_def)
  done

lemma try_info_interrupt:
  "ticker_info up = Inl KeyboardInterrupt \<Longrightarrow>
     try_info up w = (Inl KeyboardInterrupt, w\<lparr>requests := requests w @ [Info]\<rparr>)"
  by (simp add: try_info_def request_info_def)

lemma iloc_last: "xs \<noteq> [] \<Longrightarrow> iloc xs (- 1) = Inr (last xs)"
  by (cases xs rule: rev_cases) (auto simp: iloc_def Let_def nth_append)

lemma iloc_second_last: "2 \<le> length xs \<Longrightarrow> iloc xs (- 2) = Inr (xs ! (length xs - 2))"
  by (auto simp: iloc_def Let_def nat_diff_distrib intro!: arg_cong[where f="nth xs"])

lemma prev_close_fallback_bars:
  "ticker_history up ''5d'' ''1d'' = Inr ds \<Longrightarrow>
   prev_close_fallback up l w =
     ((None, l\<lparr>prev_close := daily_close ds\<rparr>),
      w\<lparr>requests := requests w @ [History ''5d'' ''1d'']\<rparr>)"
  by (simp add: prev_close_fallback_def request_history_def iloc_last iloc_second_last
      last_map daily_close_def)

lemma prev_close_fallback_raises:
  "ticker_history up ''5d'' ''1d'' = Inl e \<Longrightarrow>
   prev_close_fallback up l w = ((Some e, l), w\<lparr>requests := requests w @ [History ''5d'' ''1d'']\<rparr>)"
  by (simp add: prev_close_fallback_def request_history_def)

lemma history_fallback_bars:
  "ticker_history up ''2d'' ''1m'' = Inr hist \<Longrightarrow> hist \<noteq> [] \<Longrightarrow>
   history_fallback up l w =
     (case minute_volume hist l of
        Inl e \<Rightarrow> ((Some e, filled_prices hist l), w\<lparr>requests := requests w @ [History ''2d'' ''1m'']\<rparr>)
      | Inr v \<Rightarrow>
          if prev_close l = ObjNone
          then prev_close_fallback up ((filled_prices hist l)\<lparr>volume := v\<rparr>)
                 (w\<lparr>requests := requests w @ [History ''2d'' ''1m'']\<rparr>)
          else ((None, (filled_prices hist l)\<lparr>volume := v\<rparr>),
                w\<lparr>requests := requests w @ [History ''2d'' ''1m'']\<rparr>))"
  by (simp add: history_fallback_def request_history_def iloc_last Let_def filled_prices_def
      minute_volume_def split: sum.splits)

lemma history_fallback_empty:
  "ticker_history up ''2d'' ''1m'' = Inr [] \<Longrightarrow>
   history_fallback up l w = ((None, l), w\<lparr>requests := requests w @ [History ''2d'' ''1m'']\<rparr>)"
  by (simp add: history_fallback_def request_history_def)

lemma history_fallback_raises:
  "ticker_history up ''2d'' ''1m'' = Inl e \<Longrightarrow>
   history_fallback up l w = ((Some e, l), w\<lparr>requests := requests w @ [History ''2d'' ''1m'']\<rparr>)"
  by (simp add: history_fallback_def request_history_def)

lemma minute_volume_raised: "minute_volume hist l = Inl e \<Longrightarrow> is_Exception e"
  by (auto simp: minute_volume_def dest: volume_of_row_raised split: if_splits)

text \<open>The ways through the two tiers, by what the handle answers.\<close>

lemma resolve_interrupted_info:
  "ticker_info up = Inl KeyboardInterrupt \<Longrightarrow>
   resolve_tiers up w = (Inl KeyboardInterrupt, w\<lparr>requests := requests w @ [Info]\<rparr>)"
  by (simp add: resolve_tiers_def try_info_interrupt)

lemma resolve_complete:
  "ticker_info up \<noteq> Inl KeyboardInterrupt \<Longrightarrow> \<not> any_missing (best_effort_fields (seen_info up)) \<Longrightarrow>
   resolve_tiers up w = (Inr (best_effort_fields (seen_info up)), w\<lparr>requests := requests w @ [Info]\<rparr>)"
  by (simp add: resolve_tiers_def try_info_ok Let_def)

lemma resolve_minute_raises:
  "ticker_info up \<noteq> Inl KeyboardInterrupt \<Longrightarrow> any_missing (best_effort_fields (seen_info up)) \<Longrightarrow>
   ticker_history up ''2d'' ''1m'' = Inl e \<Longrightarrow>
   resolve_tiers up w =
     (if is_Exception e then Inr (best_effort_fields (seen_info up)) else Inl e,
      w\<lparr>requests := requests w @ [Info, History ''2d'' ''1m'']\<rparr>)"
  by (simp add: resolve_tiers_def try_info_ok Let_def history_fallback_raises logger_debug)

lemma resolve_minute_empty:
  "ticker_info up \<noteq> Inl KeyboardInterrupt \<Longrightarrow> any_missing (best_effort_fields (seen_info up)) \<Longrightarrow>
   ticker_history up ''2d'' ''1m'' = Inr [] \<Longrightarrow>
   resolve_tiers up w =
     (Inr (best_effort_fields (seen_info up)),
      w\<lparr>requests := requests w @ [Info, History ''2d'' ''1m'']\<rparr>)"
  by (simp add: resolve_tiers_def try_info_ok Let_def history_fallback_empty)

lemma resolve_volume_raises:
  "ticker_info up \<noteq> Inl KeyboardInterrupt \<Longrightarrow> any_missing (best_effort_fields (seen_info up)) \<Longrightarrow>
   ticker_history up ''2d'' ''1m'' = Inr hist \<Longrightarrow> hist \<noteq> [] \<Longrightarrow>
   minute_volume hist (best_effort_fields (seen_info up)) = Inl e \<Longrightarrow>
   resolve_tiers up w =
     (Inr (filled_prices hist (best_effort_fields (seen_info up))),
      w\<lparr>requests := requests w @ [Info, History ''2d'' ''1m'']\<rparr>)"
  by (simp add: resolve_tiers_def try_info_ok Let_def history_fallback_bars logger_debug
      minute_volume_raised)

lemma resolve_minute_only:
  "ticker_info up \<noteq> Inl KeyboardInterrupt \<Longrightarrow> any_missing (best_effort_fields (seen_info up)) \<Longrightarrow>
   ticker_history up ''2d'' ''1m'' = Inr hist \<Longrightarrow> hist \<noteq> [] \<Longrightarrow>
   minute_volume hist (best_effort_fields (seen_info up)) = Inr v \<Longrightarrow>
   prev_close (best_effort_fields (seen_info up)) \<noteq> ObjNone \<Longrightarrow>
   resolve_tiers up w =
     (Inr ((filled_prices hist (best_effort_fields (seen_info up)))\<lparr>volume := v\<rparr>),
      w\<lparr>requests := requests w @ [Info, History ''2d'' ''1m'']\<rparr>)"
  by (simp add: resolve_tiers_def try_info_ok Let_def history_fallback_bars)

lemma resolve_daily_bars:
  "ticker_info up \<noteq> Inl KeyboardInterrupt \<Longrightarrow>
   ticker_history up ''2d'' ''1m'' = Inr hist \<Longrightarrow> hist \<noteq> [] \<Longrightarrow>
   minute_volume hist (best_effort_fields (seen_info up)) = Inr v \<Longrightarrow>
   prev_close (best_effort_fields (seen_info up)) = ObjNone \<Longrightarrow>
   ticker_history up ''5d'' ''1d'' = Inr ds \<Longrightarrow>
   resolve_tiers up w =
     (Inr ((filled_prices hist (best_effort_fields (seen_info up)))
             \<lparr>volume := v, prev_close := daily_close ds\<rparr>),
      w\<lparr>requests := requests w @ [Info, History ''2d'' ''1m'', History ''5d'' ''1d'']\<rparr>)"
  by (simp add: resolve_tiers_def try_info_ok Let_def history_fallback_bars any_missing_def
      prev_close_fallback_bars)

lemma resolve_daily_raises:
  "ticker_info up \<noteq> Inl KeyboardInterrupt \<Longrightarrow>
   ticker_history up ''2d'' ''1m'' = Inr hist \<Longrightarrow> hist \<noteq> [] \<Longrightarrow>
   minute_volume hist (best_effort_fields (seen_info up)) = Inr v \<Longrightarrow>
   prev_close (best_effort_fields (seen_info up)) = ObjNone \<Longrightarrow>
   ticker_history up ''5d'' ''1d'' = Inl e \<Longrightarrow>
   resolve_tiers up w =
     (if is_Exception e
      then Inr ((filled_prices hist (best_effort_fields (seen_info up)))\<lparr>volume := v\<rparr>)
      else Inl e,
      w\<lparr>requests := requests w @ [Info, History ''2d'' ''1m'', History ''5d'' ''1d'']\<rparr>)"
  by (simp add: resolve_tiers_def try_info_ok Let_def history_fallback_bars any_missing_def
      prev_close_fallback_raises logger_debug)

lemma new_requests_append: "new_requests w (w\<lparr>requests := requests w @ rs\<rparr>) = rs"
  by (simp add: new_requests_def)

lemma resolve_cases:
  obtains
    (interrupted_info) "ticker_info up = Inl KeyboardInterrupt"
  | (complete) "ticker_info up \<noteq> Inl KeyboardInterrupt" "\<not> any_missing (best_effort_fields (seen_info up))"
  | (minute_raises) e where "ticker_info up \<noteq> Inl KeyboardInterrupt"
      "any_missing (best_effort_fields (seen_info up))" "ticker_history up ''2d'' ''1m'' = Inl e"
  | (minute_empty) "ticker_info up \<noteq> Inl KeyboardInterrupt"
      "any_missing (best_effort_fields (seen_info up))" "ticker_history up ''2d'' ''1m'' = Inr []"
  | (volume_raises) hist e where "ticker_info up \<noteq> Inl KeyboardInterrupt"
      "any_missing (best_effort_fields (seen_info up))" "ticker_history up ''2d'' ''1m'' = Inr hist"
      "hist \<noteq> []" "minute_volume hist (best_effort_fields (seen_info up)) = Inl e"
  | (minute_only) hist v where "ticker_info up \<noteq> Inl KeyboardInterrupt"
      "any_missing (best_effort_fields (seen_info up))" "ticker_history up ''2d'' ''1m'' = Inr hist"
      "hist \<noteq> []" "minute_volume hist (best_effort_fields (seen_info up)) = Inr v"
      "prev_close (best_effort_fields (seen_info up)) \<noteq> ObjNone"
  | (daily_bars) hist v ds where "ticker_info up \<noteq> Inl KeyboardInterrupt"
      "ticker_history up ''2d'' ''1m'' = Inr hist" "hist \<noteq> []"
      "minute_volume hist (best_effort_fields (seen_info up)) = Inr v"
      "prev_close (best_effort_fields (seen_info up)) = ObjNone"
      "ticker_history up ''5d'' ''1d'' = Inr ds"
  | (daily_raises) hist v e where "ticker_info up \<noteq> Inl KeyboardInterrupt"
      "ticker_history up ''2d'' ''1m'' = Inr hist" "hist \<noteq> []"
      "minute_volume hist (best_effort_fields (seen_info up)) = Inr v"
      "prev_close (best_effort_fields (seen_info up)) = ObjNone"
      "ticker_history up ''5d'' ''1d'' = Inl e"
proof (cases "ticker_info up = Inl KeyboardInterrupt")
  case True
  then show ?thesis by (rule interrupted_info)
next
  case i: False
  show ?thesis
  proof (cases "any_missing (best_effort_fields (seen_info up))")
    case False
    with i show ?thesis by (rule complete)
  next
    case a: True
    show ?thesis
    proof (cases "ticker_history up ''2d'' ''1m''")
      case (Inl e)
      with i a show ?thesis by (rule minute_raises)
    next
      case (Inr hist)
      show ?thesis
      proof (cases "hist = []")
        case True
        with i a Inr show ?thesis by (auto intro: minute_empty)
      next
        case ne: False
        show ?thesis
        proof (cases "minute_volume hist (best_effort_fields (seen_info up))")
          case (Inl e)
          with i a Inr ne show ?thesis by (rule volume_raises)
        next
          case mv: (Inr v)
          show ?thesis
          proof (cases "prev_close (best_effort_fields (seen_info up)) = ObjNone")
            case False
            with i a Inr ne mv show ?thesis by (intro minute_only[of hist v]) simp_all
          next
            case pn: True
            show ?thesis
            proof (cases "ticker_history up ''5d'' ''1d''")
              case (Inl e)
              with i Inr ne mv pn show ?thesis by (intro daily_raises[of hist v e]) simp_all
            next
              case r: (Inr ds)
              with i Inr ne mv pn show ?thesis by (intro daily_bars[of hist v ds]) simp_all
            qed
          qed
        qed
      qed
    qed
  qed
qed

lemma daily_consulted:
  assumes "History ''5d'' ''1d'' \<in> set (new_requests w (snd (resolve_tiers up w)))"
  shows "ticker_info up \<noteq> Inl KeyboardInterrupt
    \<and> prev_close (best_effort_fields (seen_info up)) = ObjNone
    \<and> (\<exists>hist v. ticker_history up ''2d'' ''1m'' = Inr hist \<and> hist \<noteq> []
          \<and> minute_volume hist (best_effort_fields (seen_info up)) = Inr v)"
proof (cases up rule: resolve_cases)
  case interrupted_info
  with assms show ?thesis by (simp add: resolve_interrupted_info new_requests_append)
next
  case complete
  with assms show ?thesis by (simp add: resolve_complete new_requests_append)
next
  case (minute_raises e)
  with assms show ?thesis by (simp add: resolve_minute_raises new_requests_append)
next
  case minute_empty
  with assms show ?thesis by (simp add: resolve_minute_empty new_requests_append)
next
  case (volume_raises hist e)
  with assms show ?thesis by (simp add: resolve_volume_raises new_requests_append)
next
  case (minute_only hist v)
  with assms show ?thesis by (simp add: resolve_minute_only new_requests_append)
next
  case (daily_bars hist v ds)
  then show ?thesis by simp
next
  case (daily_raises hist v e)
  then show ?thesis by simp
qed

lemma resolve_never_fails:
  assumes "no_interrupt up"
  shows "\<exists>l. fst (resolve_tiers up w) = Inr l"
proof -
  from assms have m: "\<And>e. ticker_history up ''2d'' ''1m'' = Inl e \<Longrightarrow> is_Exception e"
    and d: "\<And>e. ticker_history up ''5d'' ''1d'' = Inl e \<Longrightarrow> is_Exception e"
    by (auto simp: no_interrupt_def not_interrupt_iff[symmetric])
  show ?thesis
  proof (cases up rule: resolve_cases)
    case interrupted_info
    with assms show ?thesis by (simp add: no_interrupt_def)
  next
    case complete
    then show ?thesis by (simp add: resolve_complete)
  next
    case (minute_raises e)
    with m show ?thesis by (simp add: resolve_minute_raises)
  next
    case minute_empty
    then show ?thesis by (simp add: resolve_minute_empty)
  next
    case (volume_raises hist e)
    then show ?thesis by (simp add: resolve_volume_raises)
  next
    case (minute_only hist v)
    then show ?thesis by (simp add: resolve_minute_only)
  next
    case (daily_bars hist v ds)
    then show ?thesis by (simp add: resolve_daily_bars)
  next
    case (daily_raises hist v e)
    with d show ?thesis by (simp add: resolve_daily_raises)
  qed
qed

lemma resolve_tiers_logged:
  "logged (snd (resolve_tiers up w)) = logged w"
proof (cases up rule: resolve_cases)
  case interrupted_info
  then show ?thesis by (simp add: resolve_interrupted_info)
next
  case complete
  then show ?thesis by (simp add: resolve_complete)
next
  case (minute_raises e)
  then show ?thesis by (simp add: resolve_minute_raises)
next
  case minute_empty
  then show ?thesis by (simp add: resolve_minute_empty)
next
  case (volume_raises hist e)
  then show ?thesis by (simp add: resolve_volume_raises)
next
  case (minute_only hist v)
  then show ?thesis by (simp add: resolve_minute_only)
next
  case (daily_bars hist v ds)
  then show ?thesis by (simp add: resolve_daily_bars)
next
  case (daily_raises hist v e)
  then show ?thesis by (simp add: resolve_daily_raises)
qed

text \<open>Values that the tiers assign are floats and integers, which the conversions accept.\<close>

lemma convertible_filled_prices: "convertible l \<Longrightarrow> convertible (filled_prices hist l)"
  by (simp add: convertible_def filled_prices_def float_or_zero_simps returns_def)

lemma minute_volume_accepted:
  "minute_volume hist l = Inr v \<Longrightarrow> returns (int_or_zero (volume l)) \<Longrightarrow> returns (int_or_zero v)"
  by (auto simp: minute_volume_def volume_of_row_def and_then_def int_or_zero_simps returns_def
      split: if_splits sum.splits)

lemma convertible_volume:
  "convertible l \<Longrightarrow> returns (int_or_zero v) \<Longrightarrow> convertible (l\<lparr>volume := v\<rparr>)"
  by (simp add: convertible_def)

lemma daily_close_accepted: "returns (float_or_zero (daily_close ds))"
  by (simp add: daily_close_def float_or_zero_simps returns_def)

lemma convertible_prev_close:
  "convertible l \<Longrightarrow> convertible (l\<lparr>prev_close := daily_close ds\<rparr>)"
  by (simp add: convertible_def daily_close_accepted)

lemma resolved_convertible:
  assumes "fst (resolve_tiers up w) = Inr l" and "well_typed up"
  shows "convertible l"
proof -
  let ?l0 = "best_effort_fields (seen_info up)"
  from assms(2) have c0: "convertible ?l0" by (simp add: well_typed_def)
  then have cf: "convertible (filled_prices hist ?l0)" for hist
    by (rule convertible_filled_prices)
  have cv: "convertible ((filled_prices hist ?l0)\<lparr>volume := v\<rparr>)"
    if "minute_volume hist ?l0 = Inr v" for hist v
  proof -
    from c0 have "returns (int_or_zero (volume ?l0))" by (simp add: convertible_def)
    from minute_volume_accepted[OF that this] cf show ?thesis by (rule convertible_volume[rotated])
  qed
  show ?thesis
  proof (cases up rule: resolve_cases)
    case interrupted_info
    with assms(1) show ?thesis by (simp add: resolve_interrupted_info)
  next
    case complete
    with assms(1) c0 show ?thesis by (simp add: resolve_complete)
  next
    case (minute_raises e)
    with assms(1) c0 show ?thesis by (simp add: resolve_minute_raises split: if_splits)
  next
    case minute_empty
    with assms(1) c0 show ?thesis by (simp add: resolve_minute_empty)
  next
    case (volume_raises hist e)
    with assms(1) cf[of hist] show ?thesis by (simp add: resolve_volume_raises)
  next
    case (minute_only hist v)
    with assms(1) cv[OF minute_only(5)] show ?thesis by (simp add: resolve_minute_only)
  next
    case (daily_bars hist v ds)
    from cv[OF daily_bars(4)] have "convertible ((filled_prices hist ?l0)\<lparr>volume := v\<rparr>
        \<lparr>prev_close := daily_close ds\<rparr>)"
      by (rule convertible_prev_close)
    with assms(1) daily_bars show ?thesis by (simp add: resolve_daily_bars)
  next
    case (daily_raises hist v e)
    with assms(1) cv[OF daily_raises(4)] show ?thesis
      by (simp add: resolve_daily_raises split: if_splits)
  qed
qed

lemma get_current_price_created:
  "yf symbol = Inr up \<Longrightarrow>
   get_current_price yf now_ts symbol w =
     (case resolve_tiers up w of
        (Inl e, w1) \<Rightarrow> (Inl e, w1)
      | (Inr l, w1) \<Rightarrow> (make_row now_ts symbol (final_fallbacks l), w1))"
  by (simp add: get_current_price_def)

lemma get_current_price_refused:
  "yf symbol = Inl e \<Longrightarrow> get_current_price yf now_ts symbol w = (Inl e, w)"
  by (simp add: get_current_price_def)

lemma get_current_price_resolved:
  "yf symbol = Inr up \<Longrightarrow> resolve_tiers up w = (Inr l, w') \<Longrightarrow>
   get_current_price yf now_ts symbol w = (make_row now_ts symbol (final_fallbacks l), w')"
  by (simp add: get_current_price_created)

lemma get_current_price_raised:
  "yf symbol = Inr up \<Longrightarrow> resolve_tiers up w = (Inl e, w') \<Longrightarrow>
   get_current_price yf now_ts symbol w = (Inl e, w')"
  by (simp add: get_current_price_created)

lemma snd_get_current_price:
  "yf symbol = Inr up \<Longrightarrow> snd (get_current_price yf now_ts symbol w) = snd (resolve_tiers up w)"
  by (simp add: get_current_price_created split: prod.splits sum.splits)

lemma get_current_price_logged:
  "logged (snd (get_current_price yf now_ts symbol w)) = logged w"
  by (cases "yf symbol")
    (simp_all add: get_current_price_refused snd_get_current_price resolve_tiers_logged)

lemma map_fst_quote_row: "map fst (quote_row n s c p h lo v) = field_names"
  by (simp add: quote_row_def field_names_def)

lemma field_quote_row:
  "field (quote_row n s c p h lo v) ''timestamp'' = Some (PyStr n)"
  "field (quote_row n s c p h lo v) ''symbol'' = Some (PyStr s)"
  "field (quote_row n s c p h lo v) ''current_price'' = Some (PyFloat c)"
  "field (quote_row n s c p h lo v) ''previous_close'' = Some (PyFloat p)"
  "field (quote_row n s c p h lo v) ''day_high'' = Some (PyFloat h)"
  "field (quote_row n s c p h lo v) ''day_low'' = Some (PyFloat lo)"
  "field (quote_row n s c p h lo v) ''volume'' = Some (PyInt v)"
  by (simp_all add: field_def quote_row_def)

lemma provider_with_simps:
  "ticker_info (provider_with a b c) = a"
  "ticker_history (provider_with a b c) ''2d'' ''1m'' = b"
  "ticker_history (provider_with a b c) ''5d'' ''1d'' = c"
  by (simp_all add: provider_with_def)

lemma get_current_price_returned:
  assumes "fst (get_current_price yf now_ts symbol w) = Inr r"
  obtains up l where "yf symbol = Inr up" "fst (resolve_tiers up w) = Inr l"
    "make_row now_ts symbol (final_fallbacks l) = Inr r"
proof (cases "yf symbol")
  case (Inl e)
  with assms show ?thesis by (simp add: get_current_price_refused)
next
  case (Inr up)
  obtain a w1 where rt: "resolve_tiers up w = (a, w1)" by (metis prod.exhaust)
  show ?thesis
  proof (cases a)
    case (Inl e)
    with assms Inr rt show ?thesis by (simp add: get_current_price_raised)
  next
    case l: (Inr l)
    with assms Inr rt have "make_row now_ts symbol (final_fallbacks l) = Inr r"
      by (simp add: get_current_price_resolved)
    with Inr rt l show ?thesis by (intro that[of up l]) simp_all
  qed
qed

section \<open>Claims about the fetch\<close>

lemma get_current_price_convertible:
  assumes "yf symbol = Inr up" and "resolve_tiers up w = (Inr l, w')" and "convertible l"
  shows "\<exists>c p h lo v. float_or_zero (current l) = Inr c \<and> float_or_zero (prev_close l) = Inr p
     \<and> float_or_zero (day_high l) = Inr h \<and> float_or_zero (day_low l) = Inr lo
     \<and> int_or_zero (volume l) = Inr v
     \<and> get_current_price yf now_ts symbol w = (Inr (quote_row now_ts symbol c p h lo v), w')"
proof -
  from convertible_returns[OF assms(3)] obtain c p h lo v where
    cs: "float_or_zero (current l) = Inr c" "float_or_zero (prev_close l) = Inr p"
      "float_or_zero (day_high l) = Inr h" "float_or_zero (day_low l) = Inr lo"
      "int_or_zero (volume l) = Inr v"
    by blast
  from get_current_price_resolved[where yf=yf and symbol=symbol, OF assms(1) assms(2)]
    make_row_returns[OF cs]
  have "get_current_price yf now_ts symbol w = (Inr (quote_row now_ts symbol c p h lo v), w')"
    by simp
  with cs show ?thesis by blast
qed

lemma provider_down_facts:
  "no_interrupt provider_down" "well_typed provider_down" "seen_info provider_down = no_info"
  "ticker_info provider_down \<noteq> Inl KeyboardInterrupt"
  "any_missing (best_effort_fields (seen_info provider_down))"
  "ticker_history provider_down ''2d'' ''1m'' = Inl (Exception ''network'')"
  by (simp_all add: no_interrupt_def well_typed_def provider_down_def seen_info_def no_info_def
      best_effort_fields_def convertible_def float_or_zero_simps int_or_zero_simps returns_def
      any_missing_def)

lemma provider_down_row:
  "get_current_price (serving provider_down) now_ts symbol w
     = (Inr (quote_row now_ts symbol (Finite 0) (Finite 0) (Finite 0) (Finite 0) 0),
        w\<lparr>requests := requests w @ [Info, History ''2d'' ''1m'']\<rparr>)"
proof -
  have s: "serving provider_down symbol = Inr provider_down" by (simp add: serving_def)
  have r: "resolve_tiers provider_down w = (Inr (best_effort_fields no_info),
      w\<lparr>requests := requests w @ [Info, History ''2d'' ''1m'']\<rparr>)"
    using resolve_minute_raises[OF provider_down_facts(4) provider_down_facts(5) provider_down_facts(6), of w]
    by (simp add: provider_down_facts(3))
  have "make_row now_ts symbol (final_fallbacks (best_effort_fields no_info))
      = Inr (quote_row now_ts symbol (Finite 0) (Finite 0) (Finite 0) (Finite 0) 0)"
    by (rule make_row_returns)
      (simp_all add: best_effort_fields_def no_info_def float_or_zero_simps int_or_zero_simps)
  with get_current_price_resolved[where yf="serving provider_down" and symbol=symbol, OF s r]
  show ?thesis by simp
qed

lemma nan_volume_raises:
  "fst (get_current_price
      (serving (provider_with (Inr (Some nan_volume_info)) (Inr two_bars) (Inr two_bars)))
      now_ts symbol w) = Inl (Exception ''ValueError'')"
proof -
  let ?up = "provider_with (Inr (Some nan_volume_info)) (Inr two_bars) (Inr two_bars)"
  have s: "serving ?up symbol = Inr ?up" by (simp add: serving_def)
  have i: "ticker_info ?up \<noteq> Inl KeyboardInterrupt" by (simp add: provider_with_simps)
  have si: "seen_info ?up = nan_volume_info" by (simp add: seen_info_def provider_with_simps)
  have a: "\<not> any_missing (best_effort_fields (seen_info ?up))"
    unfolding si
    by (simp add: any_missing_def best_effort_fields_def nan_volume_info_def full_info_def)
  have "make_row now_ts symbol (final_fallbacks (best_effort_fields nan_volume_info))
      = Inl (Exception ''ValueError'')"
    by (simp add: make_row_final and_then_def best_effort_fields_def nan_volume_info_def
        full_info_def float_or_zero_simps int_or_zero_def)
  with get_current_price_resolved[where yf="serving ?up" and symbol=symbol and now_ts=now_ts,
      OF s resolve_complete[OF i a, of w]]
  show ?thesis by (simp add: si)
qed

text \<open>
  Claim C1, as stated, fails: the fetch raises when the provider refuses to create the
  handle, here for the empty symbol (line 25 is under no handler), and when the snapshot
  holds a value that the conversions of lines 80 to 84 reject, here a NaN volume.
\<close>

theorem fetch_raises:
  "fst (get_current_price (rejecting_empty provider_down) ''2026-11-04 09:30:00'' '''' empty_world)
     = Inl (Exception ''ValueError'')
   \<and> fst (get_current_price
        (serving (provider_with (Inr (Some nan_volume_info)) (Inr two_bars) (Inr two_bars)))
        ''2026-11-04 09:30:00'' ''NVDA'' empty_world) = Inl (Exception ''ValueError'')"
  by (simp add: nan_volume_raises get_current_price_refused rejecting_empty_def)

text \<open>
  Claim C1, amended. Once the handle for the symbol is created, and with a snapshot
  whose values, where present, are accepted by the conversion of their field, the fetch
  raises nothing whatever the snapshot request and the two bar requests answer, values
  or ordinary errors: it returns the record of the symbol, the time stamp and the five
  variables as the two tiers left them, each converted, or zero where unresolved. The
  user's interrupt is no answer of the provider.
\<close>

theorem get_current_price_returns:
  assumes "yf symbol = Inr up" and "no_interrupt up" and "well_typed up"
  shows "\<exists>l w' c p h lo v.
     resolve_tiers up w = (Inr l, w')
     \<and> float_or_zero (current l) = Inr c \<and> float_or_zero (prev_close l) = Inr p
     \<and> float_or_zero (day_high l) = Inr h \<and> float_or_zero (day_low l) = Inr lo
     \<and> int_or_zero (volume l) = Inr v
     \<and> get_current_price yf now_ts symbol w = (Inr (quote_row now_ts symbol c p h lo v), w')"
proof -
  obtain l where l: "fst (resolve_tiers up w) = Inr l"
    using resolve_never_fails[OF assms(2)] by blast
  then have r: "resolve_tiers up w = (Inr l, snd (resolve_tiers up w))"
    by (metis prod.collapse)
  from resolved_convertible[OF l assms(3)] have "convertible l" .
  from get_current_price_convertible[where yf=yf and symbol=symbol, OF assms(1) r this, of now_ts] r
  show ?thesis by blast
qed

theorem get_current_price_returns_witness:
  "serving provider_down ''NVDA'' = Inr provider_down
   \<and> no_interrupt provider_down \<and> well_typed provider_down
   \<and> (\<exists>l w' c p h lo v.
     resolve_tiers provider_down empty_world = (Inr l, w')
     \<and> float_or_zero (current l) = Inr c \<and> float_or_zero (prev_close l) = Inr p
     \<and> float_or_zero (day_high l) = Inr h \<and> float_or_zero (day_low l) = Inr lo
     \<and> int_or_zero (volume l) = Inr v
     \<and> get_current_price (serving provider_down) ''2026-11-04 09:30:00'' ''NVDA'' empty_world
         = (Inr (quote_row ''2026-11-04 09:30:00'' ''NVDA'' c p h lo v), w'))"
proof -
  have s: "serving provider_down ''NVDA'' = Inr provider_down" by (simp add: serving_def)
  from get_current_price_returns[where yf="serving provider_down" and symbol="''NVDA''",
      OF s provider_down_facts(1) provider_down_facts(2)] s
  show ?thesis by (simp add: provider_down_facts)
qed

text \<open>
  Claim C2, as stated, fails. It asks that every field of the record be numeric, the
  time stamp and the symbol among them, and both are strings: with the provider down,
  the record for \<open>NVDA\<close> holds the string \<open>NVDA\<close> under \<open>symbol\<close>. And it asks
  for a record on every upstream outcome, while a NaN volume in the snapshot leaves none.
\<close>

theorem symbol_field_not_numeric:
  "fst (get_current_price (serving provider_down) ''2026-11-04 09:30:00'' ''NVDA'' empty_world)
     = Inr (quote_row ''2026-11-04 09:30:00'' ''NVDA'' (Finite 0) (Finite 0) (Finite 0) (Finite 0) 0)
   \<and> field (quote_row ''2026-11-04 09:30:00'' ''NVDA'' (Finite 0) (Finite 0) (Finite 0) (Finite 0) 0)
        ''symbol'' = Some (PyStr ''NVDA'')
   \<and> \<not> is_numeric (PyStr ''NVDA'')
   \<and> \<not> all_numeric (quote_row ''2026-11-04 09:30:00'' ''NVDA'' (Finite 0) (Finite 0) (Finite 0) (Finite 0) 0)
   \<and> fst (get_current_price
        (serving (provider_with (Inr (Some nan_volume_info)) (Inr two_bars) (Inr two_bars)))
        ''2026-11-04 09:30:00'' ''NVDA'' empty_world) = Inl (Exception ''ValueError'')"
proof -
  have "\<not> all_numeric (quote_row ''2026-11-04 09:30:00'' ''NVDA'' (Finite 0) (Finite 0) (Finite 0) (Finite 0) 0)"
    by (simp add: all_numeric_def field_names_def field_quote_row)
  then show ?thesis by (simp add: provider_down_row field_quote_row nan_volume_raises)
qed

text \<open>
  Claim C2, amended. Every record that the fetch returns has all seven fields, none of
  them null: the time stamp and the symbol are strings, the four prices are floats and
  the volume is an integer. Each of these five is the conversion of what the two tiers
  resolved, and zero (\<open>0.0\<close> for a price, \<open>0\<close> for the volume) where they left the
  field unresolved. A record is returned whenever the handle is created, no request is
  interrupted and the snapshot's values are well typed.
\<close>

theorem returned_record_well_formed:
  "(fst (get_current_price yf now_ts symbol w) = Inr r \<longrightarrow>
     (\<exists>up l c p h lo v. yf symbol = Inr up \<and> fst (resolve_tiers up w) = Inr l
       \<and> map fst r = field_names
       \<and> field r ''timestamp'' = Some (PyStr now_ts)
       \<and> field r ''symbol'' = Some (PyStr symbol)
       \<and> field r ''current_price'' = Some (PyFloat c)
       \<and> field r ''previous_close'' = Some (PyFloat p)
       \<and> field r ''day_high'' = Some (PyFloat h)
       \<and> field r ''day_low'' = Some (PyFloat lo)
       \<and> field r ''volume'' = Some (PyInt v)
       \<and> float_or_zero (current l) = Inr c \<and> float_or_zero (prev_close l) = Inr p
       \<and> float_or_zero (day_high l) = Inr h \<and> float_or_zero (day_low l) = Inr lo
       \<and> int_or_zero (volume l) = Inr v
       \<and> (current l = ObjNone \<longrightarrow> c = Finite 0) \<and> (prev_close l = ObjNone \<longrightarrow> p = Finite 0)
       \<and> (day_high l = ObjNone \<longrightarrow> h = Finite 0) \<and> (day_low l = ObjNone \<longrightarrow> lo = Finite 0)
       \<and> (volume l = ObjNone \<longrightarrow> v = 0)))
   \<and> (yf symbol = Inr ticker \<and> no_interrupt ticker \<and> well_typed ticker \<longrightarrow>
     (\<exists>r'. fst (get_current_price yf now_ts symbol w) = Inr r'))"
proof (intro conjI impI)
  assume "fst (get_current_price yf now_ts symbol w) = Inr r"
  then obtain up l where u: "yf symbol = Inr up" and l: "fst (resolve_tiers up w) = Inr l"
    and m: "make_row now_ts symbol (final_fallbacks l) = Inr r"
    by (rule get_current_price_returned)
  from make_row_returned[OF m] obtain c p h lo v where
    cs: "float_or_zero (current l) = Inr c" "float_or_zero (prev_close l) = Inr p"
      "float_or_zero (day_high l) = Inr h" "float_or_zero (day_low l) = Inr lo"
      "int_or_zero (volume l) = Inr v"
    and r: "r = quote_row now_ts symbol c p h lo v"
    by blast
  from cs have "current l = ObjNone \<longrightarrow> c = Finite 0" "prev_close l = ObjNone \<longrightarrow> p = Finite 0"
    "day_high l = ObjNone \<longrightarrow> h = Finite 0" "day_low l = ObjNone \<longrightarrow> lo = Finite 0"
    "volume l = ObjNone \<longrightarrow> v = 0"
    by (auto simp: float_or_zero_simps int_or_zero_simps)
  with u l cs show "\<exists>up l c p h lo v. yf symbol = Inr up \<and> fst (resolve_tiers up w) = Inr l
       \<and> map fst r = field_names
       \<and> field r ''timestamp'' = Some (PyStr now_ts)
       \<and> field r ''symbol'' = Some (PyStr symbol)
       \<and> field r ''current_price'' = Some (PyFloat c)
       \<and> field r ''previous_close'' = Some (PyFloat p)
       \<and> field r ''day_high'' = Some (PyFloat h)
       \<and> field r ''day_low'' = Some (PyFloat lo)
       \<and> field r ''volume'' = Some (PyInt v)
       \<and> float_or_zero (current l) = Inr c \<and> float_or_zero (prev_close l) = Inr p
       \<and> float_or_zero (day_high l) = Inr h \<and> float_or_zero (day_low l) = Inr lo
       \<and> int_or_zero (volume l) = Inr v
       \<and> (current l = ObjNone \<longrightarrow> c = Finite 0) \<and> (prev_close l = ObjNone \<longrightarrow> p = Finite 0)
       \<and> (day_high l = ObjNone \<longrightarrow> h = Finite 0) \<and> (day_low l = ObjNone \<longrightarrow> lo = Finite 0)
       \<and> (volume l = ObjNone \<longrightarrow> v = 0)"
    unfolding r by (intro exI[of _ up] exI[of _ l] exI[of _ c] exI[of _ p] exI[of _ h]
        exI[of _ lo] exI[of _ v]) (simp add: map_fst_quote_row field_quote_row)
next
  assume a: "yf symbol = Inr ticker \<and> no_interrupt ticker \<and> well_typed ticker"
  then obtain l where l: "fst (resolve_tiers ticker w) = Inr l"
    using resolve_never_fails by blast
  then have rt: "resolve_tiers ticker w = (Inr l, snd (resolve_tiers ticker w))"
    by (metis prod.collapse)
  from a resolved_convertible[OF l] have "convertible l" by simp
  from get_current_price_convertible[where yf=yf and symbol=symbol, OF _ rt this, of now_ts] a
  show "\<exists>r'. fst (get_current_price yf now_ts symbol w) = Inr r'" by auto
qed

theorem returned_record_well_formed_witness:
  "fst (get_current_price (serving provider_down) ''2026-11-04 09:30:00'' ''NVDA'' empty_world)
     = Inr (quote_row ''2026-11-04 09:30:00'' ''NVDA'' (Finite 0) (Finite 0) (Finite 0) (Finite 0) 0)
   \<and> serving provider_down ''NVDA'' = Inr provider_down
   \<and> no_interrupt provider_down \<and> well_typed provider_down
   \<and> (\<exists>up l c p h lo v. serving provider_down ''NVDA'' = Inr up
    \<and> fst (resolve_tiers up empty_world) = Inr l
    \<and> map fst (quote_row ''2026-11-04 09:30:00'' ''NVDA'' (Finite 0) (Finite 0) (Finite 0) (Finite 0) 0)
        = field_names
    \<and> field (quote_row ''2026-11-04 09:30:00'' ''NVDA'' (Finite 0) (Finite 0) (Finite 0) (Finite 0) 0)
        ''current_price'' = Some (PyFloat c)
    \<and> field (quote_row ''2026-11-04 09:30:00'' ''NVDA'' (Finite 0) (Finite 0) (Finite 0) (Finite 0) 0)
        ''volume'' = Some (PyInt v)
    \<and> float_or_zero (current l) = Inr c \<and> int_or_zero (volume l) = Inr v
    \<and> (current l = ObjNone \<longrightarrow> c = Finite 0) \<and> (volume l = ObjNone \<longrightarrow> v = 0))
   \<and> (\<exists>r'. fst (get_current_price (serving provider_down) ''2026-11-04 09:30:00'' ''NVDA'' empty_world)
          = Inr r')"
proof -
  have h: "fst (get_current_price (serving provider_down) ''2026-11-04 09:30:00'' ''NVDA'' empty_world)
     = Inr (quote_row ''2026-11-04 09:30:00'' ''NVDA'' (Finite 0) (Finite 0) (Finite 0) (Finite 0) 0)"
    by (simp add: provider_down_row)
  have s: "serving provider_down ''NVDA'' = Inr provider_down" by (simp add: serving_def)
  from returned_record_well_formed[where yf="serving provider_down" and symbol="''NVDA''"
      and now_ts="''2026-11-04 09:30:00''" and w=empty_world and ticker=provider_down
      and r="quote_row ''2026-11-04 09:30:00'' ''NVDA'' (Finite 0) (Finite 0) (Finite 0) (Finite 0) 0"]
    h s provider_down_facts(1) provider_down_facts(2)
  show ?thesis by blast
qed

lemma daily_close_examples:
  "map Close ds = [a, b, c] \<Longrightarrow> daily_close ds = ObjFloat b"
  "map Close ds = [a] \<Longrightarrow> daily_close ds = ObjFloat a"
  "daily_close [] = ObjNone"
proof -
  show "daily_close ds = ObjFloat b" if h: "map Close ds = [a, b, c]"
  proof -
    from h have len: "length ds = 3" by (metis length_map length_Cons list.size(3) numeral_3_eq_3)
    then have "Close (ds ! 1) = map Close ds ! 1" by simp
    with h len show ?thesis by (simp add: daily_close_def)
  qed
  show "daily_close ds = ObjFloat a" if h: "map Close ds = [a]"
  proof -
    from h obtain d where "ds = [d]" "Close d = a" by auto
    then show ?thesis by (simp add: daily_close_def)
  qed
  show "daily_close [] = ObjNone" by (simp add: daily_close_def)
qed

text \<open>
  Claim C3. When the daily bars are consulted, which happens only with the previous
  close unresolved after the snapshot: daily closes 10, 12, 15 resolve the previous
  close to 12, a single daily close 10 resolves it to 10, and no daily bar leaves it
  unresolved. Every record returned then holds 12, 10 and the default \<open>0.0\<close>, and a
  record is returned whenever the snapshot's other values are well typed.
\<close>

theorem previous_close_from_daily_bars:
  assumes "yf symbol = Inr up"
    and "History ''5d'' ''1d'' \<in> set (new_requests w (snd (get_current_price yf now_ts symbol w)))"
    and "ticker_history up ''5d'' ''1d'' = Inr ds"
  shows "previousClose (seen_info up) = ObjNone
    \<and> (\<exists>l. fst (resolve_tiers up w) = Inr l
          \<and> (map Close ds = [Finite 10, Finite 12, Finite 15] \<longrightarrow> prev_close l = ObjFloat (Finite 12))
          \<and> (map Close ds = [Finite 10] \<longrightarrow> prev_close l = ObjFloat (Finite 10))
          \<and> (ds = [] \<longrightarrow> prev_close l = ObjNone))
    \<and> (\<forall>r. fst (get_current_price yf now_ts symbol w) = Inr r \<longrightarrow>
          (map Close ds = [Finite 10, Finite 12, Finite 15]
             \<longrightarrow> field r ''previous_close'' = Some (PyFloat (Finite 12)))
          \<and> (map Close ds = [Finite 10] \<longrightarrow> field r ''previous_close'' = Some (PyFloat (Finite 10)))
          \<and> (ds = [] \<longrightarrow> field r ''previous_close'' = Some (PyFloat (Finite 0))))
    \<and> (well_typed up \<longrightarrow> (\<exists>r. fst (get_current_price yf now_ts symbol w) = Inr r))"
proof -
  let ?l0 = "best_effort_fields (seen_info up)"
  from assms(2) have "History ''5d'' ''1d'' \<in> set (new_requests w (snd (resolve_tiers up w)))"
    by (simp add: snd_get_current_price[where yf=yf and symbol=symbol, OF assms(1)])
  from daily_consulted[OF this] obtain hist v where
    i: "ticker_info up \<noteq> Inl KeyboardInterrupt"
    and p: "prev_close ?l0 = ObjNone"
    and m: "ticker_history up ''2d'' ''1m'' = Inr hist" and ne: "hist \<noteq> []"
    and mv: "minute_volume hist ?l0 = Inr v"
    by blast
  let ?l = "(filled_prices hist ?l0)\<lparr>volume := v, prev_close := daily_close ds\<rparr>"
  let ?w = "w\<lparr>requests := requests w @ [Info, History ''2d'' ''1m'', History ''5d'' ''1d'']\<rparr>"
  have rt: "resolve_tiers up w = (Inr ?l, ?w)"
    by (rule resolve_daily_bars[OF i m ne mv p assms(3)])
  have g: "get_current_price yf now_ts symbol w = (make_row now_ts symbol (final_fallbacks ?l), ?w)"
    by (rule get_current_price_resolved[where yf=yf and symbol=symbol, OF assms(1) rt])
  from p have c1: "previousClose (seen_info up) = ObjNone"
    by (simp add: best_effort_fields_def)
  have c2: "\<exists>l. fst (resolve_tiers up w) = Inr l
          \<and> (map Close ds = [Finite 10, Finite 12, Finite 15] \<longrightarrow> prev_close l = ObjFloat (Finite 12))
          \<and> (map Close ds = [Finite 10] \<longrightarrow> prev_close l = ObjFloat (Finite 10))
          \<and> (ds = [] \<longrightarrow> prev_close l = ObjNone)"
    by (rule exI[of _ ?l]) (auto simp: rt daily_close_examples)
  have c3: "(map Close ds = [Finite 10, Finite 12, Finite 15]
             \<longrightarrow> field r ''previous_close'' = Some (PyFloat (Finite 12)))
          \<and> (map Close ds = [Finite 10] \<longrightarrow> field r ''previous_close'' = Some (PyFloat (Finite 10)))
          \<and> (ds = [] \<longrightarrow> field r ''previous_close'' = Some (PyFloat (Finite 0)))"
    if "fst (get_current_price yf now_ts symbol w) = Inr r" for r
  proof -
    from that g have "make_row now_ts symbol (final_fallbacks ?l) = Inr r" by simp
    from make_row_returned[OF this] obtain c q h lo n where
      q: "float_or_zero (daily_close ds) = Inr q" and r: "r = quote_row now_ts symbol c q h lo n"
      by auto
    from q show ?thesis
      unfolding r by (auto simp: field_quote_row daily_close_examples float_or_zero_simps)
  qed
  have c4: "\<exists>r. fst (get_current_price yf now_ts symbol w) = Inr r" if "well_typed up"
  proof -
    from rt have "fst (resolve_tiers up w) = Inr ?l" by simp
    from resolved_convertible[OF this that] have "convertible ?l" .
    from get_current_price_convertible[where yf=yf and symbol=symbol, OF assms(1) rt this, of now_ts]
    show ?thesis by auto
  qed
  from c1 c2 c3 c4 show ?thesis by blast
qed

lemma daily_provider_simps:
  "ticker_info (daily_provider cs) \<noteq> Inl KeyboardInterrupt"
  "ticker_history (daily_provider cs) ''2d'' ''1m'' = Inr [flat_bar 20]"
  "ticker_history (daily_provider cs) ''5d'' ''1d'' = Inr (map flat_bar cs)"
  "prev_close (best_effort_fields (seen_info (daily_provider cs))) = ObjNone"
  "minute_volume [flat_bar 20] (best_effort_fields (seen_info (daily_provider cs))) = Inr (ObjInt 1000)"
  "well_typed (daily_provider cs)"
  by (simp_all add: daily_provider_def provider_with_simps seen_info_def no_info_def
      best_effort_fields_def minute_volume_def volume_of_row_exact flat_bar_def well_typed_def
      convertible_def float_or_zero_simps int_or_zero_simps returns_def)

lemma daily_provider_consulted:
  "History ''5d'' ''1d'' \<in> set (new_requests w
     (snd (get_current_price (serving (daily_provider cs)) now_ts symbol w)))"
proof -
  have s: "serving (daily_provider cs) symbol = Inr (daily_provider cs)" by (simp add: serving_def)
  have "[flat_bar 20] \<noteq> []" by simp
  from resolve_daily_bars[OF daily_provider_simps(1) daily_provider_simps(2) this
      daily_provider_simps(5) daily_provider_simps(4) daily_provider_simps(3), of cs w]
  show ?thesis
    by (simp add: snd_get_current_price[where yf="serving (daily_provider cs)" and symbol=symbol, OF s]
        new_requests_append)
qed

theorem previous_close_from_daily_bars_witness:
  "(History ''5d'' ''1d'' \<in> set (new_requests empty_world
        (snd (get_current_price (serving (daily_provider [10, 12, 15])) ''2026-11-04 09:30:00'' ''NVDA'' empty_world)))
    \<and> map Close (map flat_bar [10, 12, 15]) = [Finite 10, Finite 12, Finite 15]
    \<and> (\<exists>r. fst (get_current_price (serving (daily_provider [10, 12, 15])) ''2026-11-04 09:30:00'' ''NVDA'' empty_world) = Inr r
          \<and> field r ''previous_close'' = Some (PyFloat (Finite 12))))
   \<and> (History ''5d'' ''1d'' \<in> set (new_requests empty_world
        (snd (get_current_price (serving (daily_provider [10])) ''2026-11-04 09:30:00'' ''NVDA'' empty_world)))
    \<and> map Close (map flat_bar [10]) = [Finite 10]
    \<and> (\<exists>r. fst (get_current_price (serving (daily_provider [10])) ''2026-11-04 09:30:00'' ''NVDA'' empty_world) = Inr r
          \<and> field r ''previous_close'' = Some (PyFloat (Finite 10))))
   \<and> (History ''5d'' ''1d'' \<in> set (new_requests empty_world
        (snd (get_current_price (serving (daily_provider [])) ''2026-11-04 09:30:00'' ''NVDA'' empty_world)))
    \<and> (\<exists>r. fst (get_current_price (serving (daily_provider [])) ''2026-11-04 09:30:00'' ''NVDA'' empty_world) = Inr r
          \<and> field r ''previous_close'' = Some (PyFloat (Finite 0))))"
proof -
  have c: "map Close (map flat_bar [10, 12, 15]) = [Finite 10, Finite 12, Finite 15]"
    "map Close (map flat_bar [10]) = [Finite 10]"
    by (simp_all add: flat_bar_def)
  have s: "serving (daily_provider cs) ''NVDA'' = Inr (daily_provider cs)" for cs
    by (simp add: serving_def)
  have h3: "History ''5d'' ''1d'' \<in> set (new_requests empty_world
        (snd (get_current_price (serving (daily_provider [10, 12, 15])) ''2026-11-04 09:30:00'' ''NVDA'' empty_world)))"
    and h1: "History ''5d'' ''1d'' \<in> set (new_requests empty_world
        (snd (get_current_price (serving (daily_provider [10])) ''2026-11-04 09:30:00'' ''NVDA'' empty_world)))"
    and h0: "History ''5d'' ''1d'' \<in> set (new_requests empty_world
        (snd (get_current_price (serving (daily_provider [])) ''2026-11-04 09:30:00'' ''NVDA'' empty_world)))"
    by (rule daily_provider_consulted)+
  have d3: "ticker_history (daily_provider [10, 12, 15]) ''5d'' ''1d'' = Inr (map flat_bar [10, 12, 15])"
    and d1: "ticker_history (daily_provider [10]) ''5d'' ''1d'' = Inr (map flat_bar [10])"
    and d0: "ticker_history (daily_provider []) ''5d'' ''1d'' = Inr []"
    by (simp_all add: daily_provider_simps)
  have wt: "well_typed (daily_provider cs)" for cs by (rule daily_provider_simps(6))
  from previous_close_from_daily_bars[where yf="serving (daily_provider [10, 12, 15])"
      and symbol="''NVDA''", OF s h3 d3]
  have "(\<forall>r. fst (get_current_price (serving (daily_provider [10, 12, 15])) ''2026-11-04 09:30:00'' ''NVDA'' empty_world) = Inr r
          \<longrightarrow> field r ''previous_close'' = Some (PyFloat (Finite 12)))
      \<and> (\<exists>r. fst (get_current_price (serving (daily_provider [10, 12, 15])) ''2026-11-04 09:30:00'' ''NVDA'' empty_world) = Inr r)"
    by (simp add: wt flat_bar_def)
  then have "\<exists>r. fst (get_current_price (serving (daily_provider [10, 12, 15])) ''2026-11-04 09:30:00'' ''NVDA'' empty_world) = Inr r
          \<and> field r ''previous_close'' = Some (PyFloat (Finite 12))"
    by blast
  moreover from previous_close_from_daily_bars[where yf="serving (daily_provider [10])"
      and symbol="''NVDA''", OF s h1 d1]
  have "(\<forall>r. fst (get_current_price (serving (daily_provider [10])) ''2026-11-04 09:30:00'' ''NVDA'' empty_world) = Inr r
          \<longrightarrow> field r ''previous_close'' = Some (PyFloat (Finite 10)))
      \<and> (\<exists>r. fst (get_current_price (serving (daily_provider [10])) ''2026-11-04 09:30:00'' ''NVDA'' empty_world) = Inr r)"
    by (simp add: wt flat_bar_def)
  then have "\<exists>r. fst (get_current_price (serving (daily_provider [10])) ''2026-11-04 09:30:00'' ''NVDA'' empty_world) = Inr r
          \<and> field r ''previous_close'' = Some (PyFloat (Finite 10))"
    by blast
  moreover from previous_close_from_daily_bars[where yf="serving (daily_provider [])"
      and symbol="''NVDA''", OF s h0 d0]
  have "(\<forall>r. fst (get_current_price (serving (daily_provider [])) ''2026-11-04 09:30:00'' ''NVDA'' empty_world) = Inr r
          \<longrightarrow> field r ''previous_close'' = Some (PyFloat (Finite 0)))
      \<and> (\<exists>r. fst (get_current_price (serving (daily_provider [])) ''2026-11-04 09:30:00'' ''NVDA'' empty_world) = Inr r)"
    by (simp add: wt)
  then have "\<exists>r. fst (get_current_price (serving (daily_provider [])) ''2026-11-04 09:30:00'' ''NVDA'' empty_world) = Inr r
          \<and> field r ''previous_close'' = Some (PyFloat (Finite 0))"
    by blast
  ultimately show ?thesis using c h3 h1 h0 by blast
qed



lemma no_info_fields:
  "current (filled_prices hist (best_effort_fields no_info)) = ObjFloat (Close (last hist))"
  "day_high (filled_prices hist (best_effort_fields no_info)) = ObjFloat (series_max (map High hist))"
  "day_low (filled_prices hist (best_effort_fields no_info)) = ObjFloat (series_min (map Low hist))"
  "prev_close (filled_prices hist (best_effort_fields no_info)) = ObjNone"
  "volume (filled_prices hist (best_effort_fields no_info)) = ObjNone"
  "minute_volume hist (best_effort_fields no_info) = volume_of_row (last hist)"
  "convertible (best_effort_fields no_info)"
  by (simp_all add: filled_prices_def best_effort_fields_def no_info_def minute_volume_def
      convertible_def float_or_zero_simps int_or_zero_simps returns_def)

lemma volume_rounded_row:
  "fst (get_current_price
      (serving (provider_with (Inr None) (Inr huge_volume_bars) (Inr []))) now_ts symbol w)
     = Inr (quote_row now_ts symbol (Finite 104) (Finite 0) (Finite 105) (Finite 99) 9007199254740992)"
proof -
  let ?up = "provider_with (Inr None) (Inr huge_volume_bars) (Inr [])"
  have s: "serving ?up symbol = Inr ?up" by (simp add: serving_def)
  have i: "ticker_info ?up \<noteq> Inl KeyboardInterrupt" by (simp add: provider_with_simps)
  have si: "seen_info ?up = no_info" by (simp add: seen_info_def provider_with_simps)
  have m: "ticker_history ?up ''2d'' ''1m'' = Inr huge_volume_bars"
    and d: "ticker_history ?up ''5d'' ''1d'' = Inr []"
    by (simp_all add: provider_with_simps)
  have ne: "huge_volume_bars \<noteq> []" by (simp add: huge_volume_bars_def)
  have mv: "minute_volume huge_volume_bars (best_effort_fields (seen_info ?up))
      = Inr (ObjInt 9007199254740992)"
    unfolding si no_info_fields
    by (simp add: volume_of_row_def and_then_def huge_volume_bars_def to_float64_huge)
  have p: "prev_close (best_effort_fields (seen_info ?up)) = ObjNone"
    unfolding si by (simp add: best_effort_fields_def no_info_def)
  have sm: "series_max (map High huge_volume_bars) = Finite 105"
    "series_min (map Low huge_volume_bars) = Finite 99"
    by (simp_all add: series_max_def series_min_def huge_volume_bars_def)
  have "make_row now_ts symbol (final_fallbacks
      ((filled_prices huge_volume_bars (best_effort_fields (seen_info ?up)))
         \<lparr>volume := ObjInt 9007199254740992, prev_close := daily_close []\<rparr>))
     = Inr (quote_row now_ts symbol (Finite 104) (Finite 0) (Finite 105) (Finite 99) 9007199254740992)"
    unfolding si
    by (rule make_row_returns)
      (simp_all add: no_info_fields daily_close_examples float_or_zero_simps int_or_zero_simps sm,
        simp add: huge_volume_bars_def)
  with get_current_price_resolved[where yf="serving ?up" and symbol=symbol and now_ts=now_ts,
      OF s resolve_daily_bars[OF i m ne mv p d, of w]]
  show ?thesis by simp
qed

text \<open>
  Claim C5, as stated, fails for the volume: the row read from the frame holds floats,
  so a last bar with volume \<open>2^53 + 1\<close> gives the record the volume \<open>2^53\<close>.
\<close>

theorem volume_rounded:
  "Volume (last huge_volume_bars) = Int64 9007199254740993
   \<and> fst (get_current_price
        (serving (provider_with (Inr None) (Inr huge_volume_bars) (Inr [])))
        ''2026-11-04 09:30:00'' ''NVDA'' empty_world)
     = Inr (quote_row ''2026-11-04 09:30:00'' ''NVDA'' (Finite 104) (Finite 0) (Finite 105) (Finite 99)
              9007199254740992)
   \<and> field (quote_row ''2026-11-04 09:30:00'' ''NVDA'' (Finite 104) (Finite 0) (Finite 105) (Finite 99)
              9007199254740992) ''volume'' = Some (PyInt 9007199254740992)"
  by (simp add: volume_rounded_row field_quote_row) (simp add: huge_volume_bars_def)

text \<open>
  Claim C5, amended. When the snapshot resolves none of the five fields (the request
  fails, or yields nothing) and the minute-bar request returns bars, the record has as
  day high the greatest high and as day low the least low of all the bars returned
  (the maximum and minimum of the column, which for prices that are numbers are the
  greatest and the least), as current price the close of the last bar, and as volume
  the volume of the last bar when that is an integer of magnitude at most \<open>2^53\<close>,
  which a double holds exactly. This holds whatever the daily-bar request answers, an
  ordinary error included.
\<close>

theorem bars_replace_missing_snapshot:
  assumes "yf symbol = Inr up"
    and "ticker_info up \<noteq> Inl KeyboardInterrupt" and "seen_info up = no_info"
    and "ticker_history up ''2d'' ''1m'' = Inr hist" and "hist \<noteq> []"
    and "ticker_history up ''5d'' ''1d'' \<noteq> Inl KeyboardInterrupt"
  shows "(\<exists>r. fst (get_current_price yf now_ts symbol w) = Inr r
      \<and> field r ''day_high'' = Some (PyFloat (series_max (map High hist)))
      \<and> field r ''day_low'' = Some (PyFloat (series_min (map Low hist)))
      \<and> field r ''current_price'' = Some (PyFloat (Close (last hist)))
      \<and> (\<forall>n. Volume (last hist) = Int64 n \<and> \<bar>n\<bar> \<le> 2 ^ 53 \<longrightarrow> field r ''volume'' = Some (PyInt n)))
    \<and> (\<forall>hs. map High hist = map Finite hs \<longrightarrow> series_max (map High hist) = Finite (Max (set hs)))
    \<and> (\<forall>ls. map Low hist = map Finite ls \<longrightarrow> series_min (map Low hist) = Finite (Min (set ls)))"
proof -
  let ?l0 = "best_effort_fields no_info"
  let ?lp = "filled_prices hist ?l0"
  have am: "any_missing (best_effort_fields (seen_info up))"
    and p: "prev_close (best_effort_fields (seen_info up)) = ObjNone"
    by (simp_all add: assms(3) any_missing_def best_effort_fields_def no_info_def)
  have shape: "\<exists>r. fst (get_current_price yf now_ts symbol w) = Inr r
      \<and> field r ''day_high'' = Some (PyFloat (series_max (map High hist)))
      \<and> field r ''day_low'' = Some (PyFloat (series_min (map Low hist)))
      \<and> field r ''current_price'' = Some (PyFloat (Close (last hist)))
      \<and> (\<forall>n. Volume (last hist) = Int64 n \<and> \<bar>n\<bar> \<le> 2 ^ 53 \<longrightarrow> field r ''volume'' = Some (PyInt n))"
    if rt: "fst (resolve_tiers up w) = Inr l"
      and cur: "current l = current ?lp" and hi: "day_high l = day_high ?lp"
      and lo: "day_low l = day_low ?lp"
      and vol: "\<And>n. Volume (last hist) = Int64 n \<Longrightarrow> \<bar>n\<bar> \<le> 2 ^ 53 \<Longrightarrow> volume l = ObjInt n"
    for l
  proof -
    have wt: "well_typed up" by (simp add: well_typed_def assms(3) no_info_fields)
    from rt have r: "resolve_tiers up w = (Inr l, snd (resolve_tiers up w))"
      by (metis prod.collapse)
    from get_current_price_convertible[where yf=yf and symbol=symbol,
        OF assms(1) r resolved_convertible[OF rt wt], of now_ts]
    obtain c q h lw v where
      cs: "float_or_zero (current l) = Inr c" "float_or_zero (day_high l) = Inr h"
        "float_or_zero (day_low l) = Inr lw" "int_or_zero (volume l) = Inr v"
      and g: "fst (get_current_price yf now_ts symbol w) = Inr (quote_row now_ts symbol c q h lw v)"
      by auto
    from cs cur hi lo have "c = Close (last hist)" "h = series_max (map High hist)"
      "lw = series_min (map Low hist)"
      by (simp_all add: no_info_fields float_or_zero_simps)
    moreover from cs(4) vol have "Volume (last hist) = Int64 n \<and> \<bar>n\<bar> \<le> 2 ^ 53 \<longrightarrow> v = n" for n
      by (auto simp: int_or_zero_simps)
    ultimately show ?thesis using g by (simp add: field_quote_row)
  qed
  have first: "\<exists>r. fst (get_current_price yf now_ts symbol w) = Inr r
      \<and> field r ''day_high'' = Some (PyFloat (series_max (map High hist)))
      \<and> field r ''day_low'' = Some (PyFloat (series_min (map Low hist)))
      \<and> field r ''current_price'' = Some (PyFloat (Close (last hist)))
      \<and> (\<forall>n. Volume (last hist) = Int64 n \<and> \<bar>n\<bar> \<le> 2 ^ 53 \<longrightarrow> field r ''volume'' = Some (PyInt n))"
  proof (cases "minute_volume hist (best_effort_fields (seen_info up))")
    case (Inl e)
    have "volume_of_row (last hist) = Inr (ObjInt n)" if "Volume (last hist) = Int64 n" "\<bar>n\<bar> \<le> 2 ^ 53" for n
      using that by (rule volume_of_row_exact)
    with Inl have no: "\<not> (Volume (last hist) = Int64 n \<and> \<bar>n\<bar> \<le> 2 ^ 53)" for n
      by (auto simp: assms(3) no_info_fields)
    from resolve_volume_raises[OF assms(2) am assms(4) assms(5) Inl, of w]
    have "fst (resolve_tiers up w) = Inr ?lp" by (simp add: assms(3))
    then show ?thesis by (rule shape) (use no in auto)
  next
    case (Inr v)
    have vn: "v = ObjInt n" if "Volume (last hist) = Int64 n" "\<bar>n\<bar> \<le> 2 ^ 53" for n
      using Inr volume_of_row_exact[OF that] by (simp add: assms(3) no_info_fields)
    show ?thesis
    proof (cases "ticker_history up ''5d'' ''1d''")
      case (Inl e)
      with assms(6) have "is_Exception e" by (auto simp: not_interrupt_iff[symmetric])
      with resolve_daily_raises[OF assms(2) assms(4) assms(5) Inr p Inl, of w]
      have "fst (resolve_tiers up w) = Inr (?lp\<lparr>volume := v\<rparr>)" by (simp add: assms(3))
      then show ?thesis by (rule shape) (use vn in simp_all)
    next
      case ds: (Inr ds)
      from resolve_daily_bars[OF assms(2) assms(4) assms(5) Inr p ds, of w]
      have "fst (resolve_tiers up w) = Inr (?lp\<lparr>volume := v, prev_close := daily_close ds\<rparr>)"
        by (simp add: assms(3))
      then show ?thesis by (rule shape) (use vn in simp_all)
    qed
  qed
  have second: "series_max (map High hist) = Finite (Max (set hs))" if "map High hist = map Finite hs" for hs
  proof -
    from that assms(5) have "hs \<noteq> []" by auto
    from series_max_finite[OF this] that show ?thesis by simp
  qed
  have third: "series_min (map Low hist) = Finite (Min (set ls))" if "map Low hist = map Finite ls" for ls
  proof -
    from that assms(5) have "ls \<noteq> []" by auto
    from series_min_finite[OF this] that show ?thesis by simp
  qed
  from first second third show ?thesis by blast
qed

theorem bars_replace_missing_snapshot_witness:
  "serving (provider_with (Inl (Exception ''invalid symbol'')) (Inr two_bars) (Inl (Exception ''rate limit''))) ''NVDA''
     = Inr (provider_with (Inl (Exception ''invalid symbol'')) (Inr two_bars) (Inl (Exception ''rate limit'')))
   \<and> seen_info (provider_with (Inl (Exception ''invalid symbol'')) (Inr two_bars) (Inl (Exception ''rate limit''))) = no_info
   \<and> two_bars \<noteq> []
   \<and> map High two_bars = map Finite [105, 107] \<and> map Low two_bars = map Finite [99, 101]
   \<and> Volume (last two_bars) = Int64 900 \<and> Close (last two_bars) = Finite 102
   \<and> series_max (map High two_bars) = Finite 107 \<and> series_min (map Low two_bars) = Finite 99
   \<and> (\<exists>r. fst (get_current_price
          (serving (provider_with (Inl (Exception ''invalid symbol'')) (Inr two_bars) (Inl (Exception ''rate limit''))))
          ''2026-11-04 09:30:00'' ''NVDA'' empty_world) = Inr r
      \<and> field r ''day_high'' = Some (PyFloat (Finite 107))
      \<and> field r ''day_low'' = Some (PyFloat (Finite 99))
      \<and> field r ''current_price'' = Some (PyFloat (Finite 102))
      \<and> field r ''volume'' = Some (PyInt 900))"
proof -
  let ?up = "provider_with (Inl (Exception ''invalid symbol'')) (Inr two_bars) (Inl (Exception ''rate limit''))"
  have s: "serving ?up ''NVDA'' = Inr ?up" by (simp add: serving_def)
  have i: "ticker_info ?up \<noteq> Inl KeyboardInterrupt" and si: "seen_info ?up = no_info"
    and m: "ticker_history ?up ''2d'' ''1m'' = Inr two_bars" and ne: "two_bars \<noteq> []"
    and d: "ticker_history ?up ''5d'' ''1d'' \<noteq> Inl KeyboardInterrupt"
    by (simp_all add: provider_with_simps seen_info_def two_bars_def)
  have b: "map High two_bars = map Finite [105, 107]" "map Low two_bars = map Finite [99, 101]"
    "Volume (last two_bars) = Int64 900" "Close (last two_bars) = Finite 102"
    by (simp_all add: two_bars_def)
  have v: "\<bar>900::int\<bar> \<le> 2 ^ 53" by simp
  from bars_replace_missing_snapshot[where yf="serving ?up" and symbol="''NVDA''",
      OF s i si m ne d, of "''2026-11-04 09:30:00''" empty_world]
  obtain r where r: "fst (get_current_price (serving ?up) ''2026-11-04 09:30:00'' ''NVDA'' empty_world) = Inr r"
    "field r ''day_high'' = Some (PyFloat (series_max (map High two_bars)))"
    "field r ''day_low'' = Some (PyFloat (series_min (map Low two_bars)))"
    "field r ''current_price'' = Some (PyFloat (Close (last two_bars)))"
    "\<forall>n. Volume (last two_bars) = Int64 n \<and> \<bar>n\<bar> \<le> 2 ^ 53 \<longrightarrow> field r ''volume'' = Some (PyInt n)"
    and mx: "\<forall>hs. map High two_bars = map Finite hs \<longrightarrow> series_max (map High two_bars) = Finite (Max (set hs))"
    and mn: "\<forall>ls. map Low two_bars = map Finite ls \<longrightarrow> series_min (map Low two_bars) = Finite (Min (set ls))"
    by blast
  from spec[OF mx, of "[105, 107]"] b(1)
  have hmax: "series_max (map High two_bars) = Finite 107" by simp
  from spec[OF mn, of "[99, 101]"] b(2)
  have hmin: "series_min (map Low two_bars) = Finite 99" by simp
  from r(5) b(3) v have "field r ''volume'' = Some (PyInt 900)" by blast
  with r hmax hmin b s si ne show ?thesis by auto
qed

text \<open>
  Claim C8. When the minute-bar request returns no bar, nothing is resolved from bars:
  the variables stay as the snapshot gave them, the daily-bar request is not sent,
  whatever it would have answered, and the record returned holds for every field the
  snapshot's value converted, or zero where the snapshot has none.
\<close>

theorem empty_minute_bars_skip_daily:
  assumes "yf symbol = Inr up"
    and "ticker_history up ''2d'' ''1m'' = Inr []"
    and "ticker_info up \<noteq> Inl KeyboardInterrupt"
  shows "fst (resolve_tiers up w) = Inr (best_effort_fields (seen_info up))
    \<and> History ''5d'' ''1d'' \<notin> set (new_requests w (snd (get_current_price yf now_ts symbol w)))
    \<and> (\<forall>c p h lo v.
          float_or_zero (currentPrice (seen_info up)) = Inr c
          \<and> float_or_zero (previousClose (seen_info up)) = Inr p
          \<and> float_or_zero (dayHigh (seen_info up)) = Inr h
          \<and> float_or_zero (dayLow (seen_info up)) = Inr lo
          \<and> int_or_zero (snapshot.volume (seen_info up)) = Inr v
          \<longrightarrow> fst (get_current_price yf now_ts symbol w) = Inr (quote_row now_ts symbol c p h lo v))
    \<and> (\<forall>r. fst (get_current_price yf now_ts symbol w) = Inr r \<longrightarrow>
          (\<exists>c p h lo v.
             float_or_zero (currentPrice (seen_info up)) = Inr c
             \<and> float_or_zero (previousClose (seen_info up)) = Inr p
             \<and> float_or_zero (dayHigh (seen_info up)) = Inr h
             \<and> float_or_zero (dayLow (seen_info up)) = Inr lo
             \<and> int_or_zero (snapshot.volume (seen_info up)) = Inr v
             \<and> r = quote_row now_ts symbol c p h lo v))"
proof -
  let ?l0 = "best_effort_fields (seen_info up)"
  have "\<exists>rs. resolve_tiers up w = (Inr ?l0, w\<lparr>requests := requests w @ rs\<rparr>)
      \<and> History ''5d'' ''1d'' \<notin> set rs"
  proof (cases "any_missing ?l0")
    case True
    from resolve_minute_empty[OF assms(3) True assms(2), of w] show ?thesis by auto
  next
    case False
    from resolve_complete[OF assms(3) False, of w] show ?thesis by auto
  qed
  then obtain rs where rt: "resolve_tiers up w = (Inr ?l0, w\<lparr>requests := requests w @ rs\<rparr>)"
    and rs: "History ''5d'' ''1d'' \<notin> set rs" by blast
  have g: "get_current_price yf now_ts symbol w
      = (make_row now_ts symbol (final_fallbacks ?l0), w\<lparr>requests := requests w @ rs\<rparr>)"
    by (rule get_current_price_resolved[where yf=yf and symbol=symbol, OF assms(1) rt])
  have f: "current ?l0 = currentPrice (seen_info up)" "prev_close ?l0 = previousClose (seen_info up)"
    "day_high ?l0 = dayHigh (seen_info up)" "day_low ?l0 = dayLow (seen_info up)"
    "volume ?l0 = snapshot.volume (seen_info up)"
    by (simp_all add: best_effort_fields_def)
  have a: "fst (resolve_tiers up w) = Inr ?l0" by (simp add: rt)
  have b: "History ''5d'' ''1d'' \<notin> set (new_requests w (snd (get_current_price yf now_ts symbol w)))"
    by (simp add: g new_requests_append rs)
  have c: "fst (get_current_price yf now_ts symbol w) = Inr (quote_row now_ts symbol c p h lo v)"
    if "float_or_zero (currentPrice (seen_info up)) = Inr c
          \<and> float_or_zero (previousClose (seen_info up)) = Inr p
          \<and> float_or_zero (dayHigh (seen_info up)) = Inr h
          \<and> float_or_zero (dayLow (seen_info up)) = Inr lo
          \<and> int_or_zero (snapshot.volume (seen_info up)) = Inr v" for c p h lo v
    using that by (simp add: g make_row_returns f)
  have d: "\<exists>c p h lo v.
             float_or_zero (currentPrice (seen_info up)) = Inr c
             \<and> float_or_zero (previousClose (seen_info up)) = Inr p
             \<and> float_or_zero (dayHigh (seen_info up)) = Inr h
             \<and> float_or_zero (dayLow (seen_info up)) = Inr lo
             \<and> int_or_zero (snapshot.volume (seen_info up)) = Inr v
             \<and> r = quote_row now_ts symbol c p h lo v"
    if "fst (get_current_price yf now_ts symbol w) = Inr r" for r
  proof -
    from that g have "make_row now_ts symbol (final_fallbacks ?l0) = Inr r" by simp
    from make_row_returned[OF this] show ?thesis by (simp add: f)
  qed
  from a b c d show ?thesis by blast
qed

theorem empty_minute_bars_skip_daily_witness:
  "serving (provider_with (Inr None) (Inr []) (Inr (map flat_bar [10, 12, 15]))) ''NVDA''
     = Inr (provider_with (Inr None) (Inr []) (Inr (map flat_bar [10, 12, 15])))
   \<and> ticker_history (provider_with (Inr None) (Inr []) (Inr (map flat_bar [10, 12, 15]))) ''2d'' ''1m'' = Inr []
   \<and> ticker_info (provider_with (Inr None) (Inr []) (Inr (map flat_bar [10, 12, 15]))) \<noteq> Inl KeyboardInterrupt
   \<and> fst (get_current_price (serving (provider_with (Inr None) (Inr []) (Inr (map flat_bar [10, 12, 15]))))
        ''2026-11-04 09:30:00'' ''NVDA'' empty_world)
      = Inr (quote_row ''2026-11-04 09:30:00'' ''NVDA'' (Finite 0) (Finite 0) (Finite 0) (Finite 0) 0)
   \<and> History ''5d'' ''1d'' \<notin> set (new_requests empty_world
        (snd (get_current_price (serving (provider_with (Inr None) (Inr []) (Inr (map flat_bar [10, 12, 15]))))
          ''2026-11-04 09:30:00'' ''NVDA'' empty_world)))"
proof -
  let ?up = "provider_with (Inr None) (Inr []) (Inr (map flat_bar [10, 12, 15]))"
  have s: "serving ?up ''NVDA'' = Inr ?up" by (simp add: serving_def)
  have m: "ticker_history ?up ''2d'' ''1m'' = Inr []"
    and i: "ticker_info ?up \<noteq> Inl KeyboardInterrupt"
    and si: "seen_info ?up = no_info"
    by (simp_all add: provider_with_simps seen_info_def)
  have z: "float_or_zero (currentPrice (seen_info ?up)) = Inr (Finite 0)
          \<and> float_or_zero (previousClose (seen_info ?up)) = Inr (Finite 0)
          \<and> float_or_zero (dayHigh (seen_info ?up)) = Inr (Finite 0)
          \<and> float_or_zero (dayLow (seen_info ?up)) = Inr (Finite 0)
          \<and> int_or_zero (snapshot.volume (seen_info ?up)) = Inr 0"
    unfolding si by (simp add: no_info_def float_or_zero_simps int_or_zero_simps)
  from empty_minute_bars_skip_daily[where yf="serving ?up" and symbol="''NVDA''", OF s m i,
      of empty_world "''2026-11-04 09:30:00''"] z s m i
  show ?thesis by blast
qed

section \<open>Claims about the recorder\<close>

lemma logger_info: "logger INFO m w = w\<lparr>logged := logged w @ [(INFO, m)]\<rparr>"
  by (simp add: logger_def LOG_LEVEL_def)


lemma append_to_csv_written:
  "to_csv_raises ev = None \<Longrightarrow>
   append_to_csv ev r csv_path w =
     (Inr (), logger INFO (Appended csv_path)
        (w\<lparr>files := (files w)(csv_path \<mapsto>
             (case files w csv_path of None \<Rightarrow> [header_row r] | Some t \<Rightarrow> t) @ [data_row r])\<rparr>))"
  by (simp add: append_to_csv_def to_csv_def path_exists_def Let_def split: option.splits)

lemma append_to_csv_raised:
  "to_csv_raises ev = Some e \<Longrightarrow> append_to_csv ev r csv_path w = (Inl e, w)"
  by (simp add: append_to_csv_def to_csv_def)

lemma append_all_existing:
  "to_csv_raises ev = None \<Longrightarrow> files w csv_path = Some t \<Longrightarrow>
   \<exists>w'. append_all ev rs csv_path w = (Inr (), w') \<and> files w' csv_path = Some (t @ map data_row rs)"
proof (induction rs arbitrary: w t)
  case Nil
  then show ?case by simp
next
  case (Cons r rs)
  let ?w1 = "logger INFO (Appended csv_path)
        (w\<lparr>files := (files w)(csv_path \<mapsto> t @ [data_row r])\<rparr>)"
  from Cons.prems have a: "append_to_csv ev r csv_path w = (Inr (), ?w1)"
    by (simp add: append_to_csv_written)
  have "files ?w1 csv_path = Some (t @ [data_row r])"
    by (simp add: logger_info)
  from Cons.IH[OF Cons.prems(1) this] a show ?case by simp
qed

lemma header_row_quote_row: "header_row (quote_row n s c p h lo v) = map PyStr field_names"
  by (simp add: header_row_def quote_row_def field_names_def)

text \<open>
  Claim C6. Persisting a record to a destination that does not exist yet leaves a table
  of exactly one header row, listing the record's field names, followed by one data row;
  every later persist to the same destination adds exactly one data row and no header.
\<close>

theorem header_written_once:
  assumes "files w csv_path = None" and "to_csv_raises ev = None"
  shows "(\<exists>w'. append_all ev (r # rs) csv_path w = (Inr (), w')
            \<and> files w' csv_path = Some (header_row r # data_row r # map data_row rs))
    \<and> header_row (quote_row n s c p h lo v) = map PyStr field_names"
proof -
  let ?w1 = "logger INFO (Appended csv_path)
        (w\<lparr>files := (files w)(csv_path \<mapsto> [header_row r, data_row r])\<rparr>)"
  from assms have a: "append_to_csv ev r csv_path w = (Inr (), ?w1)"
    by (simp add: append_to_csv_written)
  have "files ?w1 csv_path = Some [header_row r, data_row r]"
    by (simp add: logger_info)
  from append_all_existing[OF assms(2) this] a show ?thesis
    by (simp add: header_row_quote_row)
qed

theorem header_written_once_witness:
  "files empty_world CSV_FILE = None \<and> to_csv_raises fair_weather = None
   \<and> (\<exists>w'. append_all fair_weather
          [quote_row ''2026-11-04 09:30:00'' ''NVDA'' (Finite 181.5) (Finite 180) (Finite 183) (Finite 179.25) 1500000,
           quote_row ''2026-11-04 09:35:00'' ''NVDA'' (Finite 182) (Finite 180) (Finite 183) (Finite 179.25) 1600000,
           quote_row ''2026-11-04 09:40:00'' ''NVDA'' (Finite 181) (Finite 180) (Finite 183) (Finite 179.25) 1700000] CSV_FILE empty_world
         = (Inr (), w')
       \<and> files w' CSV_FILE = Some
           [map PyStr field_names,
            [PyStr ''2026-11-04 09:30:00'', PyStr ''NVDA'', PyFloat (Finite 181.5), PyFloat (Finite 180), PyFloat (Finite 183),
             PyFloat (Finite 179.25), PyInt 1500000],
            [PyStr ''2026-11-04 09:35:00'', PyStr ''NVDA'', PyFloat (Finite 182), PyFloat (Finite 180), PyFloat (Finite 183),
             PyFloat (Finite 179.25), PyInt 1600000],
            [PyStr ''2026-11-04 09:40:00'', PyStr ''NVDA'', PyFloat (Finite 181), PyFloat (Finite 180), PyFloat (Finite 183),
             PyFloat (Finite 179.25), PyInt 1700000]])"
proof -
  have h: "files empty_world CSV_FILE = None" "to_csv_raises fair_weather = None"
    by (simp_all add: empty_world_def fair_weather_def)
  from header_written_once[OF h,
      where r="quote_row ''2026-11-04 09:30:00'' ''NVDA'' (Finite 181.5) (Finite 180) (Finite 183) (Finite 179.25) 1500000"
        and rs="[quote_row ''2026-11-04 09:35:00'' ''NVDA'' (Finite 182) (Finite 180) (Finite 183) (Finite 179.25) 1600000,
           quote_row ''2026-11-04 09:40:00'' ''NVDA'' (Finite 181) (Finite 180) (Finite 183) (Finite 179.25) 1700000]"]
  obtain w' where "append_all fair_weather
          [quote_row ''2026-11-04 09:30:00'' ''NVDA'' (Finite 181.5) (Finite 180) (Finite 183) (Finite 179.25) 1500000,
           quote_row ''2026-11-04 09:35:00'' ''NVDA'' (Finite 182) (Finite 180) (Finite 183) (Finite 179.25) 1600000,
           quote_row ''2026-11-04 09:40:00'' ''NVDA'' (Finite 181) (Finite 180) (Finite 183) (Finite 179.25) 1700000] CSV_FILE empty_world
         = (Inr (), w')"
    and "files w' CSV_FILE = Some
       (header_row (quote_row ''2026-11-04 09:30:00'' ''NVDA'' (Finite 181.5) (Finite 180) (Finite 183) (Finite 179.25) 1500000)
        # data_row (quote_row ''2026-11-04 09:30:00'' ''NVDA'' (Finite 181.5) (Finite 180) (Finite 183) (Finite 179.25) 1500000)
        # map data_row [quote_row ''2026-11-04 09:35:00'' ''NVDA'' (Finite 182) (Finite 180) (Finite 183) (Finite 179.25) 1600000,
           quote_row ''2026-11-04 09:40:00'' ''NVDA'' (Finite 181) (Finite 180) (Finite 183) (Finite 179.25) 1700000])"
    by blast
  moreover have "data_row (quote_row a b c d e f g)
      = [PyStr a, PyStr b, PyFloat c, PyFloat d, PyFloat e, PyFloat f, PyInt g]" for a b c d e f g
    by (simp add: data_row_def quote_row_def)
  ultimately show ?thesis using h
    by (simp add: header_row_quote_row)
qed

text \<open>
  Claim C9. Whether a header is written depends only on whether the destination exists,
  not on what it holds: a persist to an existing table, be it empty or headed by other
  column names, adds the data row alone; only a missing destination gets the header.
\<close>

theorem header_depends_on_existence_only:
  assumes "to_csv_raises ev = None"
  shows "\<exists>w'. append_to_csv ev r csv_path w = (Inr (), w')
    \<and> (\<forall>t. files w csv_path = Some t \<longrightarrow> files w' csv_path = Some (t @ [data_row r]))
    \<and> (files w csv_path = Some [] \<longrightarrow> files w' csv_path = Some [data_row r])
    \<and> (files w csv_path = None \<longrightarrow> files w' csv_path = Some [header_row r, data_row r])"
  using assms by (simp add: append_to_csv_written logger_info)

theorem header_depends_on_existence_only_witness:
  "to_csv_raises fair_weather = None
   \<and> (\<exists>w'. append_to_csv fair_weather (quote_row ''2026-11-04 09:30:00'' ''NVDA'' (Finite 181.5) (Finite 180) (Finite 183) (Finite 179.25) 1500000)
          CSV_FILE (empty_world\<lparr>files := [CSV_FILE \<mapsto> [[PyStr ''date'', PyStr ''price'']]]\<rparr>) = (Inr (), w')
       \<and> files w' CSV_FILE = Some [[PyStr ''date'', PyStr ''price''],
            data_row (quote_row ''2026-11-04 09:30:00'' ''NVDA'' (Finite 181.5) (Finite 180) (Finite 183) (Finite 179.25) 1500000)])
   \<and> (\<exists>w'. append_to_csv fair_weather (quote_row ''2026-11-04 09:30:00'' ''NVDA'' (Finite 181.5) (Finite 180) (Finite 183) (Finite 179.25) 1500000)
          CSV_FILE (empty_world\<lparr>files := [CSV_FILE \<mapsto> []]\<rparr>) = (Inr (), w')
       \<and> files w' CSV_FILE = Some
            [data_row (quote_row ''2026-11-04 09:30:00'' ''NVDA'' (Finite 181.5) (Finite 180) (Finite 183) (Finite 179.25) 1500000)])"
proof -
  have h: "to_csv_raises fair_weather = None" by (simp add: fair_weather_def)
  from header_depends_on_existence_only[OF h, where csv_path=CSV_FILE
      and w="empty_world\<lparr>files := [CSV_FILE \<mapsto> [[PyStr ''date'', PyStr ''price'']]]\<rparr>"]
    header_depends_on_existence_only[OF h, where csv_path=CSV_FILE
      and w="empty_world\<lparr>files := [CSV_FILE \<mapsto> []]\<rparr>"]
  show ?thesis using h by simp
qed

section \<open>Claims about the cycle and the scheduler\<close>



lemma print_lines_logged: "logged (snd (print_lines ev xs w)) = logged w"
  by (induction xs arbitrary: w) (auto simp: py_print_def split: sum.splits option.splits)






lemma print_summary_logged: "logged (snd (print_summary ev r w)) = logged w"
  unfolding print_summary_def by (rule print_lines_logged)



lemma append_to_csv_raised_logged:
  "fst (append_to_csv ev r csv_path w) = Inl e \<Longrightarrow> logged (snd (append_to_csv ev r csv_path w)) = logged w"
  by (cases "to_csv_raises ev") (simp_all add: append_to_csv_written append_to_csv_raised)

text \<open>The three stages of a cycle, with the result and the world after each.\<close>

lemma cycle_stages:
  obtains
    (fetch_raised) e where "fst (get_current_price (provider ev) (clock_text ev) symbol w) = Inl e"
      "cycle ev symbol csv_path w = (Inl e, snd (get_current_price (provider ev) (clock_text ev) symbol w))"
  | (print_raised) r e where "fst (get_current_price (provider ev) (clock_text ev) symbol w) = Inr r"
      "fst (print_summary ev r (snd (get_current_price (provider ev) (clock_text ev) symbol w))) = Inl e"
      "cycle ev symbol csv_path w
         = (Inl e, snd (print_summary ev r (snd (get_current_price (provider ev) (clock_text ev) symbol w))))"
  | (appended) r where "fst (get_current_price (provider ev) (clock_text ev) symbol w) = Inr r"
      "fst (print_summary ev r (snd (get_current_price (provider ev) (clock_text ev) symbol w))) = Inr ()"
      "cycle ev symbol csv_path w
         = append_to_csv ev r csv_path
             (snd (print_summary ev r (snd (get_current_price (provider ev) (clock_text ev) symbol w))))"
proof -
  obtain a w1 where g: "get_current_price (provider ev) (clock_text ev) symbol w = (a, w1)"
    by (metis prod.exhaust)
  show ?thesis
  proof (cases a)
    case (Inl e)
    with g show ?thesis by (intro fetch_raised[of e]) (simp_all add: cycle_def)
  next
    case (Inr r)
    obtain b w2 where p: "print_summary ev r w1 = (b, w2)" by (metis prod.exhaust)
    show ?thesis
    proof (cases b)
      case (Inl e)
      with g Inr p show ?thesis by (intro print_raised[of r e]) (simp_all add: cycle_def)
    next
      case u: (Inr u)
      with g Inr p show ?thesis by (intro appended[of r]) (simp_all add: cycle_def)
    qed
  qed
qed

lemma cycle_raised_logged:
  assumes "fst (cycle ev symbol csv_path w) = Inl e"
  shows "logged (snd (cycle ev symbol csv_path w)) = logged w"
proof (cases rule: cycle_stages[where ev=ev and symbol=symbol and w=w and csv_path=csv_path])
  case (fetch_raised e)
  then show ?thesis by (simp add: get_current_price_logged)
next
  case (print_raised r e)
  then show ?thesis by (simp add: print_summary_logged get_current_price_logged)
next
  case (appended r)
  with assms show ?thesis
    by (simp add: append_to_csv_raised_logged print_summary_logged get_current_price_logged)
qed



lemma job_interrupted:
  "fst (cycle ev symbol csv_path w) = Inl KeyboardInterrupt \<Longrightarrow>
   job ev symbol csv_path w = (Inl KeyboardInterrupt, snd (cycle ev symbol csv_path w))"
  by (cases "cycle ev symbol csv_path w") (auto simp: job_def)



lemma run_pending_single:
  "run_pending t [j] w =
     (if next_run j \<le> clock t then
        (case job (during t) (task_symbol j) (task_csv_path j) w of
           (Inl e, w1) \<Rightarrow> (Inl e, w1)
         | (Inr u, w1) \<Rightarrow> (Inr [j\<lparr>next_run := clock t + every_seconds j\<rparr>], w1))
      else (Inr [j], w))"
  by (simp split: prod.splits sum.splits)




lemma poll_loop_append:
  "poll_loop pre reg w = (Polling reg1, w1) \<Longrightarrow> poll_loop (pre @ ts) reg w = poll_loop ts reg1 w1"
proof (induction pre arbitrary: reg w)
  case Nil
  then show ?case by simp
next
  case (Cons t pre)
  then show ?case by (auto split: prod.splits sum.splits if_splits)
qed


lemma cycle_fetch_interrupted:
  assumes "provider ev symbol = Inr up" and "ticker_info up = Inl KeyboardInterrupt"
  shows "fst (cycle ev symbol csv_path w) = Inl KeyboardInterrupt"
  by (simp add: cycle_def get_current_price_raised[where yf="provider ev" and symbol=symbol,
        OF assms(1) resolve_interrupted_info[OF assms(2)]])






text \<open>
  Claim C10. The handler of \<^verbatim>\<open>job\<close> does not catch a keyboard interrupt that arrives
  while a cycle runs: the job raises it, with nothing logged for the cycle. In the loop
  it passes through the poll to the handler of \<^verbatim>\<open>run_scheduler\<close>, which returns normally
  after logging \<open>Scheduler stopped by user\<close>, the one record logged since the cycle began;
  the remaining ticks are not run.
\<close>

theorem interrupt_passes_job_and_stops_loop:
  "(fst (cycle ev symbol csv_path w) = Inl KeyboardInterrupt \<longrightarrow>
      job ev symbol csv_path w = (Inl KeyboardInterrupt, snd (cycle ev symbol csv_path w))
      \<and> logged (snd (cycle ev symbol csv_path w)) = logged w)
   \<and> (poll_loop pre (every_minutes_do started interval_minutes symbol csv_path)
          (logger INFO (Starting interval_minutes symbol) w) = (Polling [j], w1)
       \<and> next_run j \<le> clock t
       \<and> fst (cycle (during t) (task_symbol j) (task_csv_path j) w1) = Inl KeyboardInterrupt \<longrightarrow>
      (\<exists>w'. run_scheduler started (pre @ t # post) interval_minutes symbol csv_path w = (Returned, w')
         \<and> logged w' = logged w1 @ [(INFO, StoppedByUser)]))"
proof (intro conjI impI)
  assume "fst (cycle ev symbol csv_path w) = Inl KeyboardInterrupt"
  then show "job ev symbol csv_path w = (Inl KeyboardInterrupt, snd (cycle ev symbol csv_path w))"
    and "logged (snd (cycle ev symbol csv_path w)) = logged w"
    by (simp_all add: job_interrupted cycle_raised_logged)
next
  assume a: "poll_loop pre (every_minutes_do started interval_minutes symbol csv_path)
          (logger INFO (Starting interval_minutes symbol) w) = (Polling [j], w1)
       \<and> next_run j \<le> clock t
       \<and> fst (cycle (during t) (task_symbol j) (task_csv_path j) w1) = Inl KeyboardInterrupt"
  let ?w2 = "snd (cycle (during t) (task_symbol j) (task_csv_path j) w1)"
  from a have "run_pending t [j] w1 = (Inl KeyboardInterrupt, ?w2)"
    by (simp add: run_pending_single job_interrupted)
  then have "poll_loop (t # post) [j] w1 = (Raised KeyboardInterrupt, ?w2)" by simp
  with a have "poll_loop (pre @ t # post) (every_minutes_do started interval_minutes symbol csv_path)
          (logger INFO (Starting interval_minutes symbol) w) = (Raised KeyboardInterrupt, ?w2)"
    by (simp add: poll_loop_append)
  then have "run_scheduler started (pre @ t # post) interval_minutes symbol csv_path w
      = (Returned, logger INFO StoppedByUser ?w2)"
    by (simp add: run_scheduler_def)
  moreover from a have "logged ?w2 = logged w1" by (simp add: cycle_raised_logged)
  ultimately show "\<exists>w'. run_scheduler started (pre @ t # post) interval_minutes symbol csv_path w = (Returned, w')
         \<and> logged w' = logged w1 @ [(INFO, StoppedByUser)]"
    by (simp add: logger_info)
qed

theorem interrupt_passes_job_and_stops_loop_witness:
  "fst (cycle ctrl_c ''NVDA'' CSV_FILE empty_world) = Inl KeyboardInterrupt
   \<and> job ctrl_c ''NVDA'' CSV_FILE empty_world
       = (Inl KeyboardInterrupt, snd (cycle ctrl_c ''NVDA'' CSV_FILE empty_world))
   \<and> logged (snd (cycle ctrl_c ''NVDA'' CSV_FILE empty_world)) = logged empty_world
   \<and> (\<exists>w'. run_scheduler 0 ([tick_at 100 fair_weather] @ tick_at 300 ctrl_c # [tick_at 301 fair_weather])
              5 ''NVDA'' CSV_FILE empty_world = (Returned, w')
         \<and> logged w' = [(INFO, Starting 5 ''NVDA''), (INFO, StoppedByUser)])"
proof -
  let ?j = "\<lparr>task_symbol = ''NVDA'', task_csv_path = CSV_FILE, every_seconds = 300, next_run = 300\<rparr>"
  let ?w1 = "logger INFO (Starting 5 ''NVDA'') empty_world"
  have c: "fst (cycle ctrl_c symbol csv_path w) = Inl KeyboardInterrupt" for symbol csv_path w
    by (rule cycle_fetch_interrupted[where
          up="provider_with (Inl KeyboardInterrupt) (Inr two_bars) (Inr two_bars)"])
      (simp_all add: ctrl_c_def provider_with_simps serving_def)
  have p: "poll_loop [tick_at 100 fair_weather] (every_minutes_do 0 5 ''NVDA'' CSV_FILE) ?w1
      = (Polling [?j], ?w1)"
    by (simp add: every_minutes_do_def tick_at_def)
  have d: "next_run ?j \<le> clock (tick_at 300 ctrl_c)"
    and k: "fst (cycle (during (tick_at 300 ctrl_c)) (task_symbol ?j) (task_csv_path ?j) ?w1)
        = Inl KeyboardInterrupt"
    by (simp_all add: tick_at_def c)
  from interrupt_passes_job_and_stops_loop[where ev=ctrl_c and symbol="''NVDA''"
      and csv_path=CSV_FILE and w=empty_world and pre="[tick_at 100 fair_weather]"
      and started=0 and interval_minutes=5 and j="?j" and ?w1.0="?w1" and t="tick_at 300 ctrl_c"
      and post="[tick_at 301 fair_weather]"] c p d k
  show ?thesis
    by (simp add: logger_info empty_world_def)
qed

end
